theory Spec2Isabelle
  imports Main
begin

section \<open>The Flutter installer (tasks/install/index.ts)\<close>

text \<open>
  The installer is one sequential script. Everything it does beyond comparing strings is a
  call into a collaborator that lives outside the repository: the HTTP client, the JSON
  parser, the task library (inputs, variables, result, \<open>mkdirP\<close>, the \<open>tar\<close> runner), the
  tool library (download, zip extraction, the tool cache), \<open>path.join\<close>, the UUID
  generator and the operating system identifier. The embedding takes these collaborators
  as the fields of an environment record, threads the state of the tool cache through the
  run, and logs every collaborator call, with its outcome, in a trace. A JavaScript
  exception is a value of type \<open>js_error\<close>; a function that can throw returns
  \<open>js_error + 'a\<close>. The calls to \<open>task.debug\<close> only write log lines and are left out.
\<close>

subsection \<open>Data model\<close>

text \<open>
  The manifest is the result of \<open>JSON.parse\<close>, typed \<open>any\<close> in the source. The program
  reads the fields below, and the model takes a parsed manifest in this shape: every
  release record carries its four strings. \<open>current_release\<close> is an object used as a
  dictionary from channel names to hashes; a missing key reads as \<open>undefined\<close>, here
  \<open>None\<close>.
\<close>

record ReleaseRecord =
  hash :: string
  version :: string
  channel :: string
  archive :: string

record ReleaseManifest =
  current_release :: "string \<rightharpoonup> string"
  releases :: "ReleaseRecord list"
  base_url :: string

text \<open>
  The exceptions of a run. A \<open>TypeError\<close> is raised by the language or by \<open>path.join\<close>
  itself: reading a property of \<open>undefined\<close> (the property is recorded), or passing
  \<open>undefined\<close> where \<open>path.join\<close> wants a string. \<open>Thrown\<close> is whatever a collaborator
  throws or rejects with, given by the \<open>name\<close> of the error object and its message.
  The script defines no error class of its own.
\<close>

datatype type_error = PropertyOfUndefined string | PathNotString

datatype js_error = TypeError type_error | Thrown string string

fun error_name :: "js_error \<Rightarrow> string" where
  "error_name (TypeError _) = ''TypeError''"
| "error_name (Thrown name _) = name"

datatype task_result = Succeeded string | Failed js_error

datatype call =
    RequestGet string
  | JSONParse string
  | GetInput string
  | FindLocalTool string string string
  | DownloadTool string
  | ExtractZip string
  | GetVariable string
  | Uuidv4
  | MkdirP string
  | TarExec "string list"
  | CacheDir string string string string
  | SetVariable string string
  | SetResult task_result

datatype event = Returned call | Threw call js_error

record 'c env =
  os_platform :: string
  request_get :: "string \<Rightarrow> js_error + string"
  JSON_parse :: "string \<Rightarrow> js_error + ReleaseManifest"
  getInput :: "string \<Rightarrow> js_error + string"
  getVariable :: "string \<Rightarrow> string option"
  findLocalTool :: "'c \<Rightarrow> string \<Rightarrow> string \<Rightarrow> string \<Rightarrow> js_error + string option"
  downloadTool :: "string \<Rightarrow> js_error + string"
  extractZip :: "string \<Rightarrow> js_error + string"
  uuidv4 :: string
  mkdirP :: "string \<Rightarrow> js_error + unit"
  tar_exec :: "string list \<Rightarrow> js_error + unit"
  cacheDir :: "'c \<Rightarrow> string \<Rightarrow> string \<Rightarrow> string \<Rightarrow> string \<Rightarrow> js_error + 'c"
  path_join :: "string \<Rightarrow> string \<Rightarrow> string"

record 'c world =
  cache :: 'c
  trace :: "event list"

type_synonym ('c, 'a) action = "'c world \<Rightarrow> (js_error + 'a) \<times> 'c world"

subsection \<open>Sequencing, exceptions and calls\<close>

definition andThen :: "('c, 'a) action \<Rightarrow> ('a \<Rightarrow> ('c, 'b) action) \<Rightarrow> ('c, 'b) action" where
  "andThen m f w = (case m w of (Inl e, w') \<Rightarrow> (Inl e, w') | (Inr x, w') \<Rightarrow> f x w')"

definition return :: "'a \<Rightarrow> ('c, 'a) action" where
  "return x w = (Inr x, w)"

definition throw :: "js_error \<Rightarrow> ('c, 'a) action" where
  "throw e w = (Inl e, w)"

definition invoke :: "call \<Rightarrow> js_error + 'a \<Rightarrow> ('c, 'a) action" where
  "invoke c r w =
     (case r of
        Inl e \<Rightarrow> (Inl e, w\<lparr>trace := trace w @ [Threw c e]\<rparr>)
      | Inr x \<Rightarrow> (Inr x, w\<lparr>trace := trace w @ [Returned c]\<rparr>))"

subsection \<open>Constants\<close>

definition FLUTTER_TOOL_NAME :: string where
  "FLUTTER_TOOL_NAME = ''Flutter''"

definition FLUTTER_EXE_RELATIVEPATH :: string where
  "FLUTTER_EXE_RELATIVEPATH = ''flutter/bin''"

definition FLUTTER_TOOL_PATH_ENV_VAR :: string where
  "FLUTTER_TOOL_PATH_ENV_VAR = ''FlutterToolPath''"

subsection \<open>The functions of the script\<close>

text \<open>\<open>findArchitecture\<close>, as a function of the value of \<open>os.platform()\<close>.\<close>

definition findArchitecture :: "string \<Rightarrow> string" where
  "findArchitecture p =
     (if p = ''darwin'' then ''macos''
      else if p = ''linux'' then ''linux''
      else ''windows'')"

definition releases_url :: "string \<Rightarrow> string" where
  "releases_url arch =
     ''https://storage.googleapis.com/flutter_infra/releases/releases_'' @ arch @ ''.json''"

definition getReleaseData :: "'c env \<Rightarrow> string \<Rightarrow> ('c, ReleaseManifest) action" where
  "getReleaseData env arch =
     (let releasesUrl = releases_url arch
      in andThen (invoke (RequestGet releasesUrl) (request_get env releasesUrl)) (\<lambda>response.
         invoke (JSONParse response) (JSON_parse env response)))"

text \<open>
  \<open>Array.prototype.find\<close> is \<open>List.find\<close>: the first element that satisfies the
  predicate, \<open>undefined\<close> (\<open>None\<close>) when there is none. In \<open>findLatestRelease\<close> the
  hash looked up may be \<open>undefined\<close>, and \<open>===\<close> then compares a record's string with
  \<open>undefined\<close>.
\<close>

definition findLatestRelease :: "ReleaseManifest \<Rightarrow> string \<Rightarrow> ReleaseRecord option" where
  "findLatestRelease releaseData chan =
     (let currentHash = current_release releaseData chan
      in find (\<lambda>item. Some (hash item) = currentHash) (releases releaseData))"

definition findVersionRelease ::
  "ReleaseManifest \<Rightarrow> string \<Rightarrow> string \<Rightarrow> ReleaseRecord option" where
  "findVersionRelease releaseData chan ver =
     find (\<lambda>item. version item = ver \<and> channel item = chan) (releases releaseData)"

text \<open>
  \<open>_createExtractFolder\<close> and \<open>extractTarXZ\<close>. \<open>!dest\<close> holds for \<open>undefined\<close> and for
  the empty string. The arguments of \<open>path.join\<close> are evaluated before the call, so the
  identifier is generated before \<open>path.join\<close> rejects an undefined temp root.
\<close>

definition createExtractFolder :: "'c env \<Rightarrow> string option \<Rightarrow> ('c, string) action" where
  "createExtractFolder env dest =
     (let fresh =
        andThen (invoke (GetVariable ''Agent.TempDirectory'')
                   (Inr (getVariable env ''Agent.TempDirectory''))) (\<lambda>root.
        andThen (invoke Uuidv4 (Inr (uuidv4 env))) (\<lambda>uuid.
        case root of
          None \<Rightarrow> throw (TypeError PathNotString)
        | Some r \<Rightarrow> return (path_join env r uuid)))
      in
      andThen
        (case dest of
           None \<Rightarrow> fresh
         | Some d \<Rightarrow> if d = '''' then fresh else return d) (\<lambda>d.
      andThen (invoke (MkdirP d) (mkdirP env d)) (\<lambda>_.
      return d)))"

definition extractTarXZ :: "'c env \<Rightarrow> string \<Rightarrow> string option \<Rightarrow> ('c, string) action" where
  "extractTarXZ env file destination =
     andThen (createExtractFolder env destination) (\<lambda>dest.
     let args = [''-xJC'', dest, ''-f'', file] in
     andThen (invoke (TarExec args) (tar_exec env args)) (\<lambda>_.
     return dest))"

definition endsWith :: "string \<Rightarrow> string \<Rightarrow> bool" where
  "endsWith s suf =
     (length suf \<le> length s \<and> drop (length s - length suf) s = suf)"

definition call_cacheDir ::
  "'c env \<Rightarrow> string \<Rightarrow> string \<Rightarrow> string \<Rightarrow> string \<Rightarrow> ('c, unit) action" where
  "call_cacheDir env dir name ver arch w =
     (case cacheDir env (cache w) dir name ver arch of
        Inl e \<Rightarrow> (Inl e, w\<lparr>trace := trace w @ [Threw (CacheDir dir name ver arch) e]\<rparr>)
      | Inr c \<Rightarrow> (Inr (), w\<lparr>cache := c, trace := trace w @ [Returned (CacheDir dir name ver arch)]\<rparr>))"

definition call_findLocalTool ::
  "'c env \<Rightarrow> string \<Rightarrow> string \<Rightarrow> string \<Rightarrow> ('c, string option) action" where
  "call_findLocalTool env name ver arch w =
     invoke (FindLocalTool name ver arch) (findLocalTool env (cache w) name ver arch) w"

definition downloadAndCacheSdk ::
  "'c env \<Rightarrow> string \<Rightarrow> string \<Rightarrow> string \<Rightarrow> string \<Rightarrow> ('c, unit) action" where
  "downloadAndCacheSdk env downloadUrl versionSpec chan arch =
     andThen (invoke (DownloadTool downloadUrl) (downloadTool env downloadUrl)) (\<lambda>bundleZip.
     andThen
       (if endsWith downloadUrl ''.zip''
        then invoke (ExtractZip bundleZip) (extractZip env bundleZip)
        else extractTarXZ env bundleZip None) (\<lambda>bundleDir.
     call_cacheDir env bundleDir FLUTTER_TOOL_NAME versionSpec arch))"

text \<open>
  \<open>!toolPath\<close> holds for \<open>undefined\<close> and for the empty string (\<open>falsy\<close>). Reading
  \<open>archive\<close> of an absent release and joining an undefined tool path raise a
  \<open>TypeError\<close>.
\<close>

definition falsy :: "string option \<Rightarrow> bool" where
  "falsy t = (t = None \<or> t = Some '''')"

definition main :: "'c env \<Rightarrow> ('c, unit) action" where
  "main env =
     (let arch = findArchitecture (os_platform env) in
      andThen (getReleaseData env arch) (\<lambda>releaseData.
      let baseUrl = base_url releaseData in
      andThen (invoke (GetInput ''channel'') (getInput env ''channel'')) (\<lambda>chan.
      andThen (invoke (GetInput ''version'') (getInput env ''version'')) (\<lambda>ver.
      let releaseInfo =
            (if ver = ''latest'' then findLatestRelease releaseData chan
             else findVersionRelease releaseData chan ver) in
      case releaseInfo of
        None \<Rightarrow> throw (TypeError (PropertyOfUndefined ''archive''))
      | Some rel \<Rightarrow>
      let urlRelative = archive rel in
      andThen (call_findLocalTool env FLUTTER_TOOL_NAME (version rel) arch) (\<lambda>toolPath.
      andThen
        (if falsy toolPath
         then andThen (downloadAndCacheSdk env (baseUrl @ ''/'' @ urlRelative)
                         (version rel) chan arch) (\<lambda>_.
              call_findLocalTool env FLUTTER_TOOL_NAME (version rel) arch)
         else return toolPath) (\<lambda>toolPath.
      case toolPath of
        None \<Rightarrow> throw (TypeError PathNotString)
      | Some p \<Rightarrow>
      let fullFlutterPath = path_join env p FLUTTER_EXE_RELATIVEPATH in
      andThen (invoke (SetVariable FLUTTER_TOOL_PATH_ENV_VAR fullFlutterPath) (Inr ())) (\<lambda>_.
      invoke (SetResult (Succeeded ''Installed'')) (Inr ()))))))))"

text \<open>The script itself: \<open>main().catch(error => task.setResult(Failed, error))\<close>.\<close>

definition run :: "'c env \<Rightarrow> 'c world \<Rightarrow> 'c world" where
  "run env w =
     (case main env w of
        (Inr _, w') \<Rightarrow> w'
      | (Inl e, w') \<Rightarrow> snd (invoke (SetResult (Failed e)) (Inr ()) w'))"

text \<open>
  The release that \<open>main\<close> binds to \<open>releaseInfo\<close> for a manifest and the two inputs,
  and the events an action adds to the trace.
\<close>

definition requested_release :: "ReleaseManifest \<Rightarrow> string \<Rightarrow> string \<Rightarrow> ReleaseRecord option" where
  "requested_release m c v =
     (if v = ''latest'' then findLatestRelease m c else findVersionRelease m c v)"

definition events_of :: "('c, 'a) action \<Rightarrow> 'c world \<Rightarrow> event list" where
  "events_of m w = drop (length (trace w)) (trace (snd (m w)))"

definition run_events :: "'c env \<Rightarrow> 'c world \<Rightarrow> event list" where
  "run_events env w = drop (length (trace w)) (trace (run env w))"

subsection \<open>Reading a trace\<close>

fun call_of :: "event \<Rightarrow> call" where
  "call_of (Returned c) = c"
| "call_of (Threw c e) = c"



text \<open>The calls that fetch or unpack an archive, or write to the tool cache.\<close>

fun installs :: "call \<Rightarrow> bool" where
  "installs (DownloadTool url) = True"
| "installs (ExtractZip file) = True"
| "installs (MkdirP dir) = True"
| "installs (TarExec args) = True"
| "installs (CacheDir dir name ver arch) = True"
| "installs _ = False"

text \<open>The cache key of a call into the tool cache.\<close>

fun cache_key :: "call \<Rightarrow> (string \<times> string \<times> string) option" where
  "cache_key (FindLocalTool name ver arch) = Some (name, ver, arch)"
| "cache_key (CacheDir dir name ver arch) = Some (name, ver, arch)"
| "cache_key _ = None"





text \<open>An action \<open>emits P\<close> when every event it adds to the trace satisfies \<open>P\<close>.\<close>

definition emits :: "(event \<Rightarrow> bool) \<Rightarrow> ('c, 'a) action \<Rightarrow> bool" where
  "emits P m = (\<forall>w. \<exists>evs. trace (snd (m w)) = trace w @ evs \<and> list_all P evs)"

definition keyed :: "string \<times> string \<times> string \<Rightarrow> event \<Rightarrow> bool" where
  "keyed k ev = (cache_key (call_of ev) = None \<or> cache_key (call_of ev) = Some k)"

subsection \<open>The tool cache\<close>

text \<open>
  The tool cache is the tool library's \<open>findLocalTool\<close> and \<open>cacheDir\<close>, two fields of
  the environment. Its contract, as far as the installer relies on it: a lookup that follows a
  successful store under the same key returns a path.
\<close>

definition find_after_store :: "'c env \<Rightarrow> bool" where
  "find_after_store env =
     (\<forall>c dir name ver arch c'.
        cacheDir env c dir name ver arch = Inr c' \<longrightarrow>
        (\<exists>p. findLocalTool env c' name ver arch = Inr (Some p)))"

text \<open>
  A cache for the examples: a registry from the key (tool name, version, architecture)
  to a directory. The lookup reads the registry, the store registers the directory
  \<open><cacheRoot>/<name>/<version>/<arch>\<close> under the key, and neither fails.
\<close>

type_synonym tool_cache = "string \<times> string \<times> string \<rightharpoonup> string"

definition registry_find :: "tool_cache \<Rightarrow> string \<Rightarrow> string \<Rightarrow> string \<Rightarrow> js_error + string option" where
  "registry_find c name ver arch = Inr (c (name, ver, arch))"

definition registry_store ::
  "string \<Rightarrow> tool_cache \<Rightarrow> string \<Rightarrow> string \<Rightarrow> string \<Rightarrow> string \<Rightarrow> js_error + tool_cache" where
  "registry_store cacheRoot c dir name ver arch =
     Inr (c((name, ver, arch) \<mapsto> cacheRoot @ ''/'' @ name @ ''/'' @ ver @ ''/'' @ arch))"

subsection \<open>Example inputs\<close>

definition release_old :: ReleaseRecord where
  "release_old =
     \<lparr>hash = ''h0'', version = ''1.2.2'', channel = ''stable'', archive = ''stable/old.tar.xz''\<rparr>"

definition release_stable :: ReleaseRecord where
  "release_stable =
     \<lparr>hash = ''h1'', version = ''1.2.3'', channel = ''stable'', archive = ''a.zip''\<rparr>"

definition release_beta :: ReleaseRecord where
  "release_beta =
     \<lparr>hash = ''h1'', version = ''1.2.3'', channel = ''beta'', archive = ''b.tar.xz''\<rparr>"

definition release_dup :: ReleaseRecord where
  "release_dup =
     \<lparr>hash = ''h2'', version = ''1.2.2'', channel = ''stable'', archive = ''stable/dup.zip''\<rparr>"

definition example_releases :: "ReleaseRecord list" where
  "example_releases = [release_old, release_stable, release_beta, release_dup]"

definition example_manifest :: ReleaseManifest where
  "example_manifest =
     \<lparr>current_release = [''stable'' \<mapsto> ''h1'', ''dev'' \<mapsto> ''h9''],
      releases = example_releases,
      base_url = ''https://example.org/releases''\<rparr>"

text \<open>
  A Linux agent whose collaborators all succeed, with the inputs \<open>channel\<close> and
  \<open>version\<close> as given, and the registry cache rooted at \<open>/agent/_tool\<close>.
\<close>

definition example_env :: "string \<Rightarrow> string \<Rightarrow> tool_cache env" where
  "example_env chan ver =
     \<lparr>os_platform = ''linux'',
      request_get = (\<lambda>url.
        if url = ''https://storage.googleapis.com/flutter_infra/releases/releases_linux.json''
        then Inr ''{manifest}'' else Inl (Thrown ''StatusCodeError'' url)),
      JSON_parse = (\<lambda>body.
        if body = ''{manifest}'' then Inr example_manifest else Inl (Thrown ''SyntaxError'' body)),
      getInput = (\<lambda>name.
        if name = ''channel'' then Inr chan
        else if name = ''version'' then Inr ver
        else Inl (Thrown ''Error'' (''Input required: '' @ name))),
      getVariable = (\<lambda>name. if name = ''Agent.TempDirectory'' then Some ''/agent/_temp'' else None),
      findLocalTool = registry_find,
      downloadTool = (\<lambda>url. Inr ''/agent/_temp/download''),
      extractZip = (\<lambda>file. Inr ''/agent/_temp/unzipped''),
      uuidv4 = ''110ec58a-a0f2-4ac4-8393-c866d813b8d1'',
      mkdirP = (\<lambda>dir. Inr ()),
      tar_exec = (\<lambda>args. Inr ()),
      cacheDir = registry_store ''/agent/_tool'',
      path_join = (\<lambda>a b. a @ ''/'' @ b)\<rparr>"

text \<open>The same agent with a tool cache that registers nothing: every lookup misses.\<close>

definition forgetful_env :: "string \<Rightarrow> string \<Rightarrow> tool_cache env" where
  "forgetful_env chan ver =
     (example_env chan ver)\<lparr>findLocalTool := (\<lambda>c name ver arch. Inr None),
                            cacheDir := (\<lambda>c dir name ver arch. Inr c)\<rparr>"

definition empty_world :: "tool_cache world" where
  "empty_world = \<lparr>cache = Map.empty, trace = []\<rparr>"

definition cached_world :: "tool_cache world" where
  "cached_world =
     \<lparr>cache = [(''Flutter'', ''1.2.3'', ''linux'') \<mapsto> ''/agent/_tool/Flutter/1.2.3/linux''],
      trace = []\<rparr>"

section \<open>Auxiliary lemmas\<close>

subsection \<open>Lists\<close>

lemma find_Some_first:
  "find P xs = Some x \<longleftrightarrow>
   (\<exists>pre post. xs = pre @ x # post \<and> P x \<and> (\<forall>y\<in>set pre. \<not> P y))"
proof (induction xs)
  case Nil
  then show ?case by simp
next
  case (Cons a xs)
  show ?case
  proof (cases "P a")
    case True
    have "(\<exists>pre post. a # xs = pre @ x # post \<and> P x \<and> (\<forall>y\<in>set pre. \<not> P y)) \<longleftrightarrow> a = x"
    proof
      assume "\<exists>pre post. a # xs = pre @ x # post \<and> P x \<and> (\<forall>y\<in>set pre. \<not> P y)"
      then obtain pre post where h: "a # xs = pre @ x # post" "\<forall>y\<in>set pre. \<not> P y"
        by blast
      show "a = x"
      proof (cases pre)
        case Nil
        with h show ?thesis by simp
      next
        case (Cons b pre')
        with h True show ?thesis by simp
      qed
    next
      assume "a = x"
      with True have "a # xs = [] @ x # xs \<and> P x \<and> (\<forall>y\<in>set []. \<not> P y)" by simp
      then show "\<exists>pre post. a # xs = pre @ x # post \<and> P x \<and> (\<forall>y\<in>set pre. \<not> P y)"
        by blast
    qed
    with True show ?thesis by simp
  next
    case False
    have "(\<exists>pre post. a # xs = pre @ x # post \<and> P x \<and> (\<forall>y\<in>set pre. \<not> P y)) \<longleftrightarrow>
          (\<exists>pre post. xs = pre @ x # post \<and> P x \<and> (\<forall>y\<in>set pre. \<not> P y))"
    proof
      assume "\<exists>pre post. a # xs = pre @ x # post \<and> P x \<and> (\<forall>y\<in>set pre. \<not> P y)"
      then obtain pre post
        where h: "a # xs = pre @ x # post" "P x" "\<forall>y\<in>set pre. \<not> P y"
        by blast
      show "\<exists>pre post. xs = pre @ x # post \<and> P x \<and> (\<forall>y\<in>set pre. \<not> P y)"
      proof (cases pre)
        case Nil
        with h False show ?thesis by simp
      next
        case (Cons b pre')
        with h have "xs = pre' @ x # post \<and> P x \<and> (\<forall>y\<in>set pre'. \<not> P y)" by simp
        then show ?thesis by blast
      qed
    next
      assume "\<exists>pre post. xs = pre @ x # post \<and> P x \<and> (\<forall>y\<in>set pre. \<not> P y)"
      then obtain pre post
        where h: "xs = pre @ x # post" "P x" "\<forall>y\<in>set pre. \<not> P y"
        by blast
      with False
      have "a # xs = (a # pre) @ x # post \<and> P x \<and> (\<forall>y\<in>set (a # pre). \<not> P y)"
        by simp
      then show "\<exists>pre post. a # xs = pre @ x # post \<and> P x \<and> (\<forall>y\<in>set pre. \<not> P y)"
        by blast
    qed
    with False Cons.IH show ?thesis by simp
  qed
qed

lemma find_None_all: "find P xs = None \<longleftrightarrow> (\<forall>y\<in>set xs. \<not> P y)"
  by (induction xs) auto

lemma endsWith_iff: "endsWith s suf \<longleftrightarrow> (\<exists>pre. s = pre @ suf)"
proof
  assume "endsWith s suf"
  then have "s = take (length s - length suf) s @ suf"
    by (metis append_take_drop_id endsWith_def)
  then show "\<exists>pre. s = pre @ suf" ..
next
  assume "\<exists>pre. s = pre @ suf"
  then show "endsWith s suf" by (auto simp: endsWith_def)
qed

subsection \<open>Sequencing\<close>

lemma invoke_Inr: "invoke c (Inr x) w = (Inr x, w\<lparr>trace := trace w @ [Returned c]\<rparr>)"
  by (simp add: invoke_def)

lemma andThen_invoke_Inr:
  "andThen (invoke c (Inr x)) f w = f x (w\<lparr>trace := trace w @ [Returned c]\<rparr>)"
  by (simp add: andThen_def invoke_def)

lemma andThen_invoke_Inl:
  "andThen (invoke c (Inl e)) f w = (Inl e, w\<lparr>trace := trace w @ [Threw c e]\<rparr>)"
  by (simp add: andThen_def invoke_def)

lemma andThen_assoc: "andThen (andThen m f) g = andThen m (\<lambda>x. andThen (f x) g)"
  by (rule ext) (simp add: andThen_def split: prod.splits sum.splits)

lemma andThen_return: "andThen (return x) f = f x"
  by (rule ext) (simp add: andThen_def return_def)

lemma andThen_call_findLocalTool:
  "andThen (call_findLocalTool env name ver arch) f w =
   andThen (invoke (FindLocalTool name ver arch) (findLocalTool env (cache w) name ver arch)) f w"
  by (simp add: andThen_def call_findLocalTool_def)

subsection \<open>Orderly actions\<close>
















subsection \<open>Events of an action\<close>

lemma emits_return: "emits P (return x)"
  by (simp add: emits_def return_def)

lemma emits_throw: "emits P (throw e)"
  by (simp add: emits_def throw_def)

lemma emits_invoke: "P (Returned c) \<Longrightarrow> (\<And>e. P (Threw c e)) \<Longrightarrow> emits P (invoke c r)"
  by (cases r) (simp_all add: emits_def invoke_def)

lemma emits_andThen:
  assumes m: "emits P m" and f: "\<And>x. emits P (f x)"
  shows "emits P (andThen m f)"
  unfolding emits_def
proof
  fix w
  obtain r w1 where mw: "m w = (r, w1)" by (cases "m w")
  from m mw obtain evs1 where e1: "trace w1 = trace w @ evs1" "list_all P evs1"
    by (auto simp: emits_def dest!: spec [of _ w])
  show "\<exists>evs. trace (snd (andThen m f w)) = trace w @ evs \<and> list_all P evs"
  proof (cases r)
    case (Inl e)
    with mw e1 show ?thesis by (auto simp: andThen_def)
  next
    case (Inr x)
    from f [of x] obtain evs2 where "trace (snd (f x w1)) = trace w1 @ evs2" "list_all P evs2"
      by (auto simp: emits_def dest!: spec [of _ w1])
    with e1 have "trace (snd (f x w1)) = trace w @ (evs1 @ evs2) \<and> list_all P (evs1 @ evs2)"
      by simp
    with Inr mw show ?thesis by (auto simp: andThen_def)
  qed
qed

lemma emits_call_findLocalTool:
  "P (Returned (FindLocalTool name ver arch)) \<Longrightarrow> (\<And>e. P (Threw (FindLocalTool name ver arch) e)) \<Longrightarrow>
   emits P (call_findLocalTool env name ver arch)"
  unfolding emits_def call_findLocalTool_def
proof
  fix w :: "'a world"
  assume "P (Returned (FindLocalTool name ver arch))" "\<And>e. P (Threw (FindLocalTool name ver arch) e)"
  then show "\<exists>evs. trace (snd (invoke (FindLocalTool name ver arch)
                (findLocalTool env (cache w) name ver arch) w)) = trace w @ evs \<and> list_all P evs"
    by (cases "findLocalTool env (cache w) name ver arch") (simp_all add: invoke_def)
qed

lemma emits_call_cacheDir:
  "P (Returned (CacheDir dir name ver arch)) \<Longrightarrow> (\<And>e. P (Threw (CacheDir dir name ver arch) e)) \<Longrightarrow>
   emits P (call_cacheDir env dir name ver arch)"
  unfolding emits_def
proof
  fix w :: "'a world"
  assume "P (Returned (CacheDir dir name ver arch))" "\<And>e. P (Threw (CacheDir dir name ver arch) e)"
  then show "\<exists>evs. trace (snd (call_cacheDir env dir name ver arch w)) = trace w @ evs \<and> list_all P evs"
    by (cases "cacheDir env (cache w) dir name ver arch") (simp_all add: call_cacheDir_def)
qed

lemma emits_createExtractFolder: "emits (keyed k) (createExtractFolder env dest)"
  unfolding createExtractFolder_def Let_def
  by (intro emits_andThen emits_invoke emits_return)
    (auto intro!: emits_andThen emits_invoke emits_return emits_throw simp: keyed_def
      split: option.splits)

lemma emits_extractTarXZ: "emits (keyed k) (extractTarXZ env file destination)"
  unfolding extractTarXZ_def Let_def
  by (intro emits_andThen emits_invoke emits_return emits_createExtractFolder)
    (simp_all add: keyed_def)

lemma emits_downloadAndCacheSdk:
  "emits (keyed (FLUTTER_TOOL_NAME, ver, arch)) (downloadAndCacheSdk env url ver chan arch)"
  unfolding downloadAndCacheSdk_def
  by (intro emits_andThen emits_call_cacheDir)
    (auto intro!: emits_invoke emits_extractTarXZ simp: keyed_def)

lemma trace_run_events:
  "trace (run env w) = trace w @ evs \<Longrightarrow> run_events env w = evs"
  by (simp add: run_events_def)

lemma call_of_call_cacheDir:
  "map call_of (drop n (trace (snd (call_cacheDir env dir name ver arch w)))) =
   map call_of (drop n (trace w @ [Returned (CacheDir dir name ver arch)]))"
  by (cases "cacheDir env (cache w) dir name ver arch")
    (simp_all add: call_cacheDir_def drop_map [symmetric] del: drop_map)

subsection \<open>Effects on the cache\<close>

lemma invoke_cache: "cache (snd (invoke c r w)) = cache w"
  by (cases r) (simp_all add: invoke_def)

lemma createExtractFolder_cache:
  "createExtractFolder env dest w = (r, w') \<Longrightarrow> cache w' = cache w"
  by (auto simp: createExtractFolder_def Let_def andThen_def invoke_def return_def throw_def
      split: option.splits sum.splits if_splits prod.splits)

lemma extractTarXZ_cache:
  "extractTarXZ env file dest w = (r, w') \<Longrightarrow> cache w' = cache w"
  by (auto simp: extractTarXZ_def Let_def andThen_def invoke_def return_def
      split: sum.splits prod.splits dest: createExtractFolder_cache)

lemma downloadAndCacheSdk_stores:
  assumes "downloadAndCacheSdk env url ver chan arch w = (Inr u, w')"
  shows "\<exists>dir. cacheDir env (cache w) dir FLUTTER_TOOL_NAME ver arch = Inr (cache w') \<and>
           last (trace w') = Returned (CacheDir dir FLUTTER_TOOL_NAME ver arch)"
proof -
  from assms obtain bundleZip w1 where dl: "invoke (DownloadTool url) (downloadTool env url) w = (Inr bundleZip, w1)"
    by (auto simp: downloadAndCacheSdk_def andThen_def split: sum.splits prod.splits)
  then have c1: "cache w1 = cache w" using invoke_cache [of "DownloadTool url" "downloadTool env url" w]
    by simp
  let ?ex = "if endsWith url ''.zip'' then invoke (ExtractZip bundleZip) (extractZip env bundleZip)
             else extractTarXZ env bundleZip None"
  from assms dl obtain dir w2 where ex: "?ex w1 = (Inr dir, w2)"
    and st: "call_cacheDir env dir FLUTTER_TOOL_NAME ver arch w2 = (Inr u, w')"
    by (auto simp: downloadAndCacheSdk_def andThen_def split: sum.splits prod.splits)
  have c2: "cache w2 = cache w1"
  proof (cases "endsWith url ''.zip''")
    case True
    with ex invoke_cache [of "ExtractZip bundleZip" "extractZip env bundleZip" w1] show ?thesis by simp
  next
    case False
    with ex show ?thesis by (simp add: extractTarXZ_cache)
  qed
  from st c1 c2 show ?thesis
    by (auto simp: call_cacheDir_def split: sum.splits)
qed

subsection \<open>Runs of the script\<close>

lemma main_resolved:
  assumes "request_get env (releases_url (findArchitecture (os_platform env))) = Inr body"
    and "JSON_parse env body = Inr m"
    and "getInput env ''channel'' = Inr c"
    and "getInput env ''version'' = Inr v"
  shows "main env w =
    (case requested_release m c v of
       None \<Rightarrow> throw (TypeError (PropertyOfUndefined ''archive''))
     | Some rel \<Rightarrow>
      andThen (call_findLocalTool env FLUTTER_TOOL_NAME (version rel)
                 (findArchitecture (os_platform env))) (\<lambda>toolPath.
      andThen
        (if falsy toolPath
         then andThen (downloadAndCacheSdk env (base_url m @ ''/'' @ archive rel)
                         (version rel) c (findArchitecture (os_platform env))) (\<lambda>_.
              call_findLocalTool env FLUTTER_TOOL_NAME (version rel)
                (findArchitecture (os_platform env)))
         else return toolPath) (\<lambda>toolPath.
      case toolPath of
        None \<Rightarrow> throw (TypeError PathNotString)
      | Some p \<Rightarrow>
      andThen (invoke (SetVariable FLUTTER_TOOL_PATH_ENV_VAR
                 (path_join env p FLUTTER_EXE_RELATIVEPATH)) (Inr ())) (\<lambda>_.
      invoke (SetResult (Succeeded ''Installed'')) (Inr ())))))
    (w\<lparr>trace := trace w @
       [Returned (RequestGet (releases_url (findArchitecture (os_platform env)))),
        Returned (JSONParse body), Returned (GetInput ''channel''),
        Returned (GetInput ''version'')]\<rparr>)"
  using assms
  by (simp add: main_def getReleaseData_def Let_def andThen_assoc andThen_invoke_Inr
      requested_release_def cong: option.case_cong)

lemma run_cache_hit:
  assumes "request_get env (releases_url (findArchitecture (os_platform env))) = Inr body"
    and "JSON_parse env body = Inr m"
    and "getInput env ''channel'' = Inr c"
    and "getInput env ''version'' = Inr v"
    and "requested_release m c v = Some rel"
    and "findLocalTool env (cache w) FLUTTER_TOOL_NAME (version rel)
           (findArchitecture (os_platform env)) = Inr (Some p)"
    and "p \<noteq> ''''"
  shows "run env w = w\<lparr>trace := trace w @
       [Returned (RequestGet (releases_url (findArchitecture (os_platform env)))),
        Returned (JSONParse body), Returned (GetInput ''channel''),
        Returned (GetInput ''version''),
        Returned (FindLocalTool FLUTTER_TOOL_NAME (version rel)
                    (findArchitecture (os_platform env))),
        Returned (SetVariable FLUTTER_TOOL_PATH_ENV_VAR
                    (path_join env p FLUTTER_EXE_RELATIVEPATH)),
        Returned (SetResult (Succeeded ''Installed''))]\<rparr>"
  using assms(5-7)
  by (simp add: run_def main_resolved [OF assms(1-4)] andThen_call_findLocalTool
      andThen_invoke_Inr andThen_return falsy_def invoke_Inr)

lemma run_relookup:
  assumes "request_get env (releases_url (findArchitecture (os_platform env))) = Inr body"
    and "JSON_parse env body = Inr m"
    and "getInput env ''channel'' = Inr c"
    and "getInput env ''version'' = Inr v"
    and "requested_release m c v = Some rel"
    and "findLocalTool env (cache w) FLUTTER_TOOL_NAME (version rel)
           (findArchitecture (os_platform env)) = Inr t"
    and "falsy t"
    and "downloadAndCacheSdk env (base_url m @ ''/'' @ archive rel) (version rel) c
           (findArchitecture (os_platform env))
           (w\<lparr>trace := trace w @
              [Returned (RequestGet (releases_url (findArchitecture (os_platform env)))),
               Returned (JSONParse body), Returned (GetInput ''channel''),
               Returned (GetInput ''version''),
               Returned (FindLocalTool FLUTTER_TOOL_NAME (version rel)
                           (findArchitecture (os_platform env)))]\<rparr>) = (Inr (), w')"
  shows "(\<exists>dir. cacheDir env (cache w) dir FLUTTER_TOOL_NAME (version rel)
                  (findArchitecture (os_platform env)) = Inr (cache w')) \<and>
         (\<forall>p. findLocalTool env (cache w') FLUTTER_TOOL_NAME (version rel)
                (findArchitecture (os_platform env)) = Inr (Some p) \<longrightarrow>
              run env w = w'\<lparr>trace := trace w' @
                [Returned (FindLocalTool FLUTTER_TOOL_NAME (version rel)
                             (findArchitecture (os_platform env))),
                 Returned (SetVariable FLUTTER_TOOL_PATH_ENV_VAR
                             (path_join env p FLUTTER_EXE_RELATIVEPATH)),
                 Returned (SetResult (Succeeded ''Installed''))]\<rparr>) \<and>
         (findLocalTool env (cache w') FLUTTER_TOOL_NAME (version rel)
            (findArchitecture (os_platform env)) = Inr None \<longrightarrow>
              run env w = w'\<lparr>trace := trace w' @
                [Returned (FindLocalTool FLUTTER_TOOL_NAME (version rel)
                             (findArchitecture (os_platform env))),
                 Returned (SetResult (Failed (TypeError PathNotString)))]\<rparr>)"
proof -
  let ?arch = "findArchitecture (os_platform env)"
  let ?find = "findLocalTool env (cache w') FLUTTER_TOOL_NAME (version rel) ?arch"
  let ?w5 = "w\<lparr>trace := trace w @
              [Returned (RequestGet (releases_url ?arch)),
               Returned (JSONParse body), Returned (GetInput ''channel''),
               Returned (GetInput ''version''),
               Returned (FindLocalTool FLUTTER_TOOL_NAME (version rel) ?arch)]\<rparr>"
  have dl: "\<And>f. andThen (downloadAndCacheSdk env (base_url m @ CHR ''/'' # archive rel)
      (version rel) c ?arch) f ?w5 = f () w'"
    using assms(8) by (simp add: andThen_def)
  have main: "main env w =
      andThen (call_findLocalTool env FLUTTER_TOOL_NAME (version rel) ?arch) (\<lambda>toolPath.
      case toolPath of
        None \<Rightarrow> throw (TypeError PathNotString)
      | Some p \<Rightarrow>
      andThen (invoke (SetVariable FLUTTER_TOOL_PATH_ENV_VAR
                 (path_join env p FLUTTER_EXE_RELATIVEPATH)) (Inr ())) (\<lambda>_.
      invoke (SetResult (Succeeded ''Installed'')) (Inr ()))) w'"
    using assms(5-7)
    by (simp add: main_resolved [OF assms(1-4)] andThen_call_findLocalTool andThen_invoke_Inr
        andThen_assoc dl)
  from assms(8) obtain dir where
    stored: "cacheDir env (cache ?w5) dir FLUTTER_TOOL_NAME (version rel) ?arch = Inr (cache w')"
    by (blast dest: downloadAndCacheSdk_stores)
  from stored have contract: "\<exists>dir. cacheDir env (cache w) dir FLUTTER_TOOL_NAME (version rel)
      ?arch = Inr (cache w')"
    by auto
  have hit: "\<forall>p. ?find = Inr (Some p) \<longrightarrow>
      run env w = w'\<lparr>trace := trace w' @
        [Returned (FindLocalTool FLUTTER_TOOL_NAME (version rel) ?arch),
         Returned (SetVariable FLUTTER_TOOL_PATH_ENV_VAR (path_join env p FLUTTER_EXE_RELATIVEPATH)),
         Returned (SetResult (Succeeded ''Installed''))]\<rparr>"
    by (simp add: run_def main andThen_call_findLocalTool andThen_invoke_Inr invoke_Inr)
  have miss: "?find = Inr None \<longrightarrow>
      run env w = w'\<lparr>trace := trace w' @
        [Returned (FindLocalTool FLUTTER_TOOL_NAME (version rel) ?arch),
         Returned (SetResult (Failed (TypeError PathNotString)))]\<rparr>"
    by (simp add: run_def main andThen_call_findLocalTool andThen_invoke_Inr invoke_Inr
        throw_def)
  from contract hit miss show ?thesis by blast
qed

lemma run_request_fails:
  assumes "request_get env (releases_url (findArchitecture (os_platform env))) = Inl e"
  shows "run env w = w\<lparr>trace := trace w @
       [Threw (RequestGet (releases_url (findArchitecture (os_platform env)))) e,
        Returned (SetResult (Failed e))]\<rparr>"
  using assms
  by (simp add: run_def main_def getReleaseData_def Let_def andThen_assoc andThen_invoke_Inl
      invoke_Inr)

lemma run_parse_fails:
  assumes "request_get env (releases_url (findArchitecture (os_platform env))) = Inr body"
    and "JSON_parse env body = Inl e"
  shows "run env w = w\<lparr>trace := trace w @
       [Returned (RequestGet (releases_url (findArchitecture (os_platform env)))),
        Threw (JSONParse body) e, Returned (SetResult (Failed e))]\<rparr>"
  using assms
  by (simp add: run_def main_def getReleaseData_def Let_def andThen_assoc andThen_invoke_Inr
      andThen_invoke_Inl invoke_Inr)

lemma run_channel_fails:
  assumes "request_get env (releases_url (findArchitecture (os_platform env))) = Inr body"
    and "JSON_parse env body = Inr m"
    and "getInput env ''channel'' = Inl e"
  shows "run env w = w\<lparr>trace := trace w @
       [Returned (RequestGet (releases_url (findArchitecture (os_platform env)))),
        Returned (JSONParse body), Threw (GetInput ''channel'') e,
        Returned (SetResult (Failed e))]\<rparr>"
  using assms
  by (simp add: run_def main_def getReleaseData_def Let_def andThen_assoc andThen_invoke_Inr
      andThen_invoke_Inl invoke_Inr)

lemma run_version_fails:
  assumes "request_get env (releases_url (findArchitecture (os_platform env))) = Inr body"
    and "JSON_parse env body = Inr m"
    and "getInput env ''channel'' = Inr c"
    and "getInput env ''version'' = Inl e"
  shows "run env w = w\<lparr>trace := trace w @
       [Returned (RequestGet (releases_url (findArchitecture (os_platform env)))),
        Returned (JSONParse body), Returned (GetInput ''channel''),
        Threw (GetInput ''version'') e, Returned (SetResult (Failed e))]\<rparr>"
  using assms
  by (simp add: run_def main_def getReleaseData_def Let_def andThen_assoc andThen_invoke_Inr
      andThen_invoke_Inl invoke_Inr)

lemma run_unresolved:
  assumes "request_get env (releases_url (findArchitecture (os_platform env))) = Inr body"
    and "JSON_parse env body = Inr m"
    and "getInput env ''channel'' = Inr c"
    and "getInput env ''version'' = Inr v"
    and "requested_release m c v = None"
  shows "run env w = w\<lparr>trace := trace w @
       [Returned (RequestGet (releases_url (findArchitecture (os_platform env)))),
        Returned (JSONParse body), Returned (GetInput ''channel''),
        Returned (GetInput ''version''),
        Returned (SetResult (Failed (TypeError (PropertyOfUndefined ''archive''))))]\<rparr>"
  by (simp add: run_def main_resolved [OF assms(1-4)] assms(5) throw_def invoke_def)

lemma run_resolved_keys:
  assumes "request_get env (releases_url (findArchitecture (os_platform env))) = Inr body"
    and "JSON_parse env body = Inr m"
    and "getInput env ''channel'' = Inr c"
    and "getInput env ''version'' = Inr v"
    and "requested_release m c v = Some rel"
  shows "\<exists>evs. trace (run env w) = trace w @ evs \<and>
      list_all (keyed (FLUTTER_TOOL_NAME, version rel, findArchitecture (os_platform env))) evs"
proof -
  let ?arch = "findArchitecture (os_platform env)"
  let ?k = "(FLUTTER_TOOL_NAME, version rel, ?arch)"
  let ?pre = "[Returned (RequestGet (releases_url ?arch)), Returned (JSONParse body),
       Returned (GetInput ''channel''), Returned (GetInput ''version'')]"
  let ?w4 = "w\<lparr>trace := trace w @ ?pre\<rparr>"
  define rest :: "('a, unit) action" where "rest =
      andThen (call_findLocalTool env FLUTTER_TOOL_NAME (version rel) ?arch) (\<lambda>toolPath.
      andThen
        (if falsy toolPath
         then andThen (downloadAndCacheSdk env (base_url m @ ''/'' @ archive rel)
                         (version rel) c ?arch) (\<lambda>_.
              call_findLocalTool env FLUTTER_TOOL_NAME (version rel) ?arch)
         else return toolPath) (\<lambda>toolPath.
      case toolPath of
        None \<Rightarrow> throw (TypeError PathNotString)
      | Some p \<Rightarrow>
      andThen (invoke (SetVariable FLUTTER_TOOL_PATH_ENV_VAR
                 (path_join env p FLUTTER_EXE_RELATIVEPATH)) (Inr ())) (\<lambda>_.
      invoke (SetResult (Succeeded ''Installed'')) (Inr ()))))"
  have main: "main env w = rest ?w4"
    by (simp add: main_resolved [OF assms(1-4)] assms(5) rest_def)
  have "emits (keyed ?k) rest"
    unfolding rest_def
    by (intro emits_andThen emits_call_findLocalTool)
      (auto intro!: emits_andThen emits_call_findLocalTool emits_downloadAndCacheSdk
        emits_return emits_throw emits_invoke simp: keyed_def split: option.splits)
  then obtain evs where evs: "trace (snd (rest ?w4)) = trace ?w4 @ evs" "list_all (keyed ?k) evs"
    unfolding emits_def by blast
  obtain r w' where t: "rest ?w4 = (r, w')" by (cases "rest ?w4")
  have pre: "list_all (keyed ?k) ?pre" by (simp add: keyed_def)
  show ?thesis
  proof (cases r)
    case (Inl e)
    with main t evs have "trace (run env w) = trace w @ (?pre @ evs @ [Returned (SetResult (Failed e))])"
      by (simp add: run_def invoke_def)
    moreover have "list_all (keyed ?k) (?pre @ evs @ [Returned (SetResult (Failed e))])"
      using evs by (simp add: keyed_def)
    ultimately show ?thesis by blast
  next
    case (Inr u)
    with main t evs have "trace (run env w) = trace w @ (?pre @ evs)"
      by (simp add: run_def)
    moreover have "list_all (keyed ?k) (?pre @ evs)"
      using evs by (simp add: keyed_def)
    ultimately show ?thesis by blast
  qed
qed

subsection \<open>The example agent\<close>

lemmas example_simps =
  example_releases_def release_old_def release_stable_def release_beta_def release_dup_def

lemma example_env_request:
  "request_get (example_env c v) (releases_url (findArchitecture (os_platform (example_env c v)))) =
   Inr ''{manifest}''"
  by (simp add: example_env_def releases_url_def findArchitecture_def)

lemma example_env_parse: "JSON_parse (example_env c v) ''{manifest}'' = Inr example_manifest"
  by (simp add: example_env_def)

lemma example_env_channel: "getInput (example_env c v) ''channel'' = Inr c"
  by (simp add: example_env_def)

lemma example_env_version: "getInput (example_env c v) ''version'' = Inr v"
  by (simp add: example_env_def)

lemma example_env_url:
  "releases_url (findArchitecture (os_platform (example_env c v))) =
   ''https://storage.googleapis.com/flutter_infra/releases/releases_linux.json''"
  by (simp add: example_env_def releases_url_def findArchitecture_def)

lemma example_requested_stable_123:
  "requested_release example_manifest ''stable'' ''1.2.3'' = Some release_stable"
  by (simp add: requested_release_def findVersionRelease_def example_manifest_def example_simps)

lemma example_requested_stable_latest:
  "requested_release example_manifest ''stable'' ''latest'' = Some release_stable"
  by (simp add: requested_release_def findLatestRelease_def example_manifest_def example_simps)

lemma example_requested_beta_123:
  "requested_release example_manifest ''beta'' ''1.2.3'' = Some release_beta"
  by (simp add: requested_release_def findVersionRelease_def example_manifest_def example_simps)

lemma example_env_arch: "findArchitecture (os_platform (example_env c v)) = ''linux''"
  by (simp add: example_env_def findArchitecture_def)

lemma forgetful_env_request:
  "request_get (forgetful_env c v) (releases_url (findArchitecture (os_platform (forgetful_env c v)))) =
   Inr ''{manifest}''"
  by (simp add: forgetful_env_def example_env_def releases_url_def findArchitecture_def)

lemma forgetful_env_parse: "JSON_parse (forgetful_env c v) ''{manifest}'' = Inr example_manifest"
  by (simp add: forgetful_env_def example_env_def)

lemma forgetful_env_channel: "getInput (forgetful_env c v) ''channel'' = Inr c"
  by (simp add: forgetful_env_def example_env_def)

lemma forgetful_env_version: "getInput (forgetful_env c v) ''version'' = Inr v"
  by (simp add: forgetful_env_def example_env_def)

lemma forgetful_env_arch: "findArchitecture (os_platform (forgetful_env c v)) = ''linux''"
  by (simp add: forgetful_env_def example_env_def findArchitecture_def)

lemma example_env_find_after_store: "find_after_store (example_env c v)"
  by (simp add: find_after_store_def example_env_def registry_find_def registry_store_def)

lemma example_download_zip:
  "downloadAndCacheSdk (example_env c v) ''https://example.org/releases/a.zip'' ''1.2.3'' chan
     ''linux'' w =
   (Inr (), w\<lparr>cache := (cache w)((''Flutter'', ''1.2.3'', ''linux'') \<mapsto>
                ''/agent/_tool/Flutter/1.2.3/linux''),
             trace := trace w @
               [Returned (DownloadTool ''https://example.org/releases/a.zip''),
                Returned (ExtractZip ''/agent/_temp/download''),
                Returned (CacheDir ''/agent/_temp/unzipped'' ''Flutter'' ''1.2.3'' ''linux'')]\<rparr>)"
  by (simp add: downloadAndCacheSdk_def example_env_def andThen_invoke_Inr endsWith_def
      call_cacheDir_def registry_store_def FLUTTER_TOOL_NAME_def)

lemma forgetful_download_zip:
  "downloadAndCacheSdk (forgetful_env c v) ''https://example.org/releases/a.zip'' ''1.2.3'' chan
     ''linux'' w =
   (Inr (), w\<lparr>trace := trace w @
               [Returned (DownloadTool ''https://example.org/releases/a.zip''),
                Returned (ExtractZip ''/agent/_temp/download''),
                Returned (CacheDir ''/agent/_temp/unzipped'' ''Flutter'' ''1.2.3'' ''linux'')]\<rparr>)"
  by (simp add: downloadAndCacheSdk_def forgetful_env_def example_env_def andThen_invoke_Inr
      endsWith_def call_cacheDir_def FLUTTER_TOOL_NAME_def)

lemma falsy_None: "falsy None"
  by (simp add: falsy_def)

lemma example_first_miss:
  "findLocalTool (example_env ''stable'' ''latest'') (cache empty_world) FLUTTER_TOOL_NAME
     (version release_stable) (findArchitecture (os_platform (example_env ''stable'' ''latest''))) =
   Inr None"
  by (simp add: example_env_def registry_find_def empty_world_def findArchitecture_def)

lemma example_download:
  "downloadAndCacheSdk (example_env ''stable'' ''latest'')
     (base_url example_manifest @ ''/'' @ archive release_stable)
     (version release_stable) ''stable''
     (findArchitecture (os_platform (example_env ''stable'' ''latest'')))
     (empty_world\<lparr>trace := trace empty_world @
        [Returned (RequestGet (releases_url
           (findArchitecture (os_platform (example_env ''stable'' ''latest''))))),
         Returned (JSONParse ''{manifest}''), Returned (GetInput ''channel''),
         Returned (GetInput ''version''),
         Returned (FindLocalTool FLUTTER_TOOL_NAME (version release_stable)
           (findArchitecture (os_platform (example_env ''stable'' ''latest''))))]\<rparr>) =
   (Inr (),
    \<lparr>cache = [(''Flutter'', ''1.2.3'', ''linux'') \<mapsto> ''/agent/_tool/Flutter/1.2.3/linux''],
     trace =
       [Returned (RequestGet ''https://storage.googleapis.com/flutter_infra/releases/releases_linux.json''),
        Returned (JSONParse ''{manifest}''), Returned (GetInput ''channel''),
        Returned (GetInput ''version''),
        Returned (FindLocalTool ''Flutter'' ''1.2.3'' ''linux''),
        Returned (DownloadTool ''https://example.org/releases/a.zip''),
        Returned (ExtractZip ''/agent/_temp/download''),
        Returned (CacheDir ''/agent/_temp/unzipped'' ''Flutter'' ''1.2.3'' ''linux'')]\<rparr>)"
  by (simp add: example_manifest_def release_stable_def example_download_zip empty_world_def
      releases_url_def FLUTTER_TOOL_NAME_def example_env_arch)

lemma example_second_hit:
  "findLocalTool (example_env ''stable'' ''latest'')
     [(''Flutter'', ''1.2.3'', ''linux'') \<mapsto> ''/agent/_tool/Flutter/1.2.3/linux'']
     FLUTTER_TOOL_NAME (version release_stable)
     (findArchitecture (os_platform (example_env ''stable'' ''latest''))) =
   Inr (Some ''/agent/_tool/Flutter/1.2.3/linux'')"
  by (simp add: example_env_def registry_find_def FLUTTER_TOOL_NAME_def release_stable_def
      findArchitecture_def)

lemma example_join:
  "path_join (example_env c v) ''/agent/_tool/Flutter/1.2.3/linux'' FLUTTER_EXE_RELATIVEPATH =
   ''/agent/_tool/Flutter/1.2.3/linux/flutter/bin''"
  by (simp add: example_env_def FLUTTER_EXE_RELATIVEPATH_def)

lemma forgetful_miss:
  "findLocalTool (forgetful_env ''stable'' ''latest'') cch FLUTTER_TOOL_NAME
     (version release_stable) (findArchitecture (os_platform (forgetful_env ''stable'' ''latest''))) =
   Inr None"
  by (simp add: forgetful_env_def)

lemma forgetful_download:
  "downloadAndCacheSdk (forgetful_env ''stable'' ''latest'')
     (base_url example_manifest @ ''/'' @ archive release_stable)
     (version release_stable) ''stable''
     (findArchitecture (os_platform (forgetful_env ''stable'' ''latest'')))
     (empty_world\<lparr>trace := trace empty_world @
        [Returned (RequestGet (releases_url
           (findArchitecture (os_platform (forgetful_env ''stable'' ''latest''))))),
         Returned (JSONParse ''{manifest}''), Returned (GetInput ''channel''),
         Returned (GetInput ''version''),
         Returned (FindLocalTool FLUTTER_TOOL_NAME (version release_stable)
           (findArchitecture (os_platform (forgetful_env ''stable'' ''latest''))))]\<rparr>) =
   (Inr (),
    \<lparr>cache = Map.empty,
     trace =
       [Returned (RequestGet ''https://storage.googleapis.com/flutter_infra/releases/releases_linux.json''),
        Returned (JSONParse ''{manifest}''), Returned (GetInput ''channel''),
        Returned (GetInput ''version''),
        Returned (FindLocalTool ''Flutter'' ''1.2.3'' ''linux''),
        Returned (DownloadTool ''https://example.org/releases/a.zip''),
        Returned (ExtractZip ''/agent/_temp/download''),
        Returned (CacheDir ''/agent/_temp/unzipped'' ''Flutter'' ''1.2.3'' ''linux'')]\<rparr>)"
  by (simp add: example_manifest_def release_stable_def forgetful_download_zip empty_world_def
      releases_url_def FLUTTER_TOOL_NAME_def forgetful_env_arch)

lemma example_run_latest:
  "run (example_env ''stable'' ''latest'') empty_world =
     \<lparr>cache = [(''Flutter'', ''1.2.3'', ''linux'') \<mapsto> ''/agent/_tool/Flutter/1.2.3/linux''],
      trace =
       [Returned (RequestGet ''https://storage.googleapis.com/flutter_infra/releases/releases_linux.json''),
        Returned (JSONParse ''{manifest}''), Returned (GetInput ''channel''),
        Returned (GetInput ''version''),
        Returned (FindLocalTool ''Flutter'' ''1.2.3'' ''linux''),
        Returned (DownloadTool ''https://example.org/releases/a.zip''),
        Returned (ExtractZip ''/agent/_temp/download''),
        Returned (CacheDir ''/agent/_temp/unzipped'' ''Flutter'' ''1.2.3'' ''linux''),
        Returned (FindLocalTool ''Flutter'' ''1.2.3'' ''linux''),
        Returned (SetVariable ''FlutterToolPath'' ''/agent/_tool/Flutter/1.2.3/linux/flutter/bin''),
        Returned (SetResult (Succeeded ''Installed''))]\<rparr>"
proof -
  note r = run_relookup [OF example_env_request example_env_parse example_env_channel
      example_env_version example_requested_stable_latest example_first_miss falsy_None
      example_download]
  with example_second_hit
  have "run (example_env ''stable'' ''latest'') empty_world =
     \<lparr>cache = [(''Flutter'', ''1.2.3'', ''linux'') \<mapsto> ''/agent/_tool/Flutter/1.2.3/linux''],
      trace =
       [Returned (RequestGet ''https://storage.googleapis.com/flutter_infra/releases/releases_linux.json''),
        Returned (JSONParse ''{manifest}''), Returned (GetInput ''channel''),
        Returned (GetInput ''version''),
        Returned (FindLocalTool ''Flutter'' ''1.2.3'' ''linux''),
        Returned (DownloadTool ''https://example.org/releases/a.zip''),
        Returned (ExtractZip ''/agent/_temp/download''),
        Returned (CacheDir ''/agent/_temp/unzipped'' ''Flutter'' ''1.2.3'' ''linux'')]\<rparr>
     \<lparr>trace :=
       [Returned (RequestGet ''https://storage.googleapis.com/flutter_infra/releases/releases_linux.json''),
        Returned (JSONParse ''{manifest}''), Returned (GetInput ''channel''),
        Returned (GetInput ''version''),
        Returned (FindLocalTool ''Flutter'' ''1.2.3'' ''linux''),
        Returned (DownloadTool ''https://example.org/releases/a.zip''),
        Returned (ExtractZip ''/agent/_temp/download''),
        Returned (CacheDir ''/agent/_temp/unzipped'' ''Flutter'' ''1.2.3'' ''linux'')] @
       [Returned (FindLocalTool FLUTTER_TOOL_NAME (version release_stable)
           (findArchitecture (os_platform (example_env ''stable'' ''latest'')))),
        Returned (SetVariable FLUTTER_TOOL_PATH_ENV_VAR
           (path_join (example_env ''stable'' ''latest'') ''/agent/_tool/Flutter/1.2.3/linux''
              FLUTTER_EXE_RELATIVEPATH)),
        Returned (SetResult (Succeeded ''Installed''))]\<rparr>"
    by simp
  then show ?thesis
    by (simp add: example_join FLUTTER_TOOL_NAME_def FLUTTER_TOOL_PATH_ENV_VAR_def
        release_stable_def example_env_arch forgetful_env_arch)
qed

lemma example_hit_beta:
  "findLocalTool (example_env ''beta'' ''1.2.3'')
     (cache \<lparr>cache = [(''Flutter'', ''1.2.3'', ''linux'') \<mapsto> ''/agent/_tool/Flutter/1.2.3/linux''],
             trace = []\<rparr>)
     FLUTTER_TOOL_NAME (version release_beta)
     (findArchitecture (os_platform (example_env ''beta'' ''1.2.3''))) =
   Inr (Some ''/agent/_tool/Flutter/1.2.3/linux'')"
  by (simp add: example_env_def registry_find_def FLUTTER_TOOL_NAME_def release_beta_def
      findArchitecture_def)

lemma example_run_beta_shares:
  "run (example_env ''beta'' ''1.2.3'')
     \<lparr>cache = [(''Flutter'', ''1.2.3'', ''linux'') \<mapsto> ''/agent/_tool/Flutter/1.2.3/linux''],
      trace = []\<rparr> =
   \<lparr>cache = [(''Flutter'', ''1.2.3'', ''linux'') \<mapsto> ''/agent/_tool/Flutter/1.2.3/linux''],
    trace =
       [Returned (RequestGet ''https://storage.googleapis.com/flutter_infra/releases/releases_linux.json''),
        Returned (JSONParse ''{manifest}''), Returned (GetInput ''channel''),
        Returned (GetInput ''version''),
        Returned (FindLocalTool ''Flutter'' ''1.2.3'' ''linux''),
        Returned (SetVariable ''FlutterToolPath'' ''/agent/_tool/Flutter/1.2.3/linux/flutter/bin''),
        Returned (SetResult (Succeeded ''Installed''))]\<rparr>"
proof -
  have nonempty: "''/agent/_tool/Flutter/1.2.3/linux'' \<noteq> ''''" by simp
  from run_cache_hit [OF example_env_request example_env_parse example_env_channel
      example_env_version example_requested_beta_123 example_hit_beta nonempty]
  show ?thesis
    by (simp add: example_join releases_url_def release_beta_def FLUTTER_TOOL_NAME_def
        FLUTTER_TOOL_PATH_ENV_VAR_def example_env_arch)
qed

section \<open>Platform Resolver\<close>

text \<open>
  C6. \<open>findArchitecture\<close> is a total function of the operating system identifier whose
  value is always one of "macos", "linux", "windows": "darwin" gives "macos", "linux"
  gives "linux", every other identifier gives "windows". There is no error path: the
  function returns a plain string.
\<close>

theorem findArchitecture_total:
  "findArchitecture p \<in> {''macos'', ''linux'', ''windows''} \<and>
   findArchitecture ''darwin'' = ''macos'' \<and>
   findArchitecture ''linux'' = ''linux'' \<and>
   (p \<noteq> ''darwin'' \<and> p \<noteq> ''linux'' \<longrightarrow> findArchitecture p = ''windows'')"
  by (simp add: findArchitecture_def)

theorem findArchitecture_total_witness:
  "''freebsd'' \<noteq> ''darwin'' \<and> ''freebsd'' \<noteq> ''linux'' \<and>
   findArchitecture ''freebsd'' = ''windows'' \<and>
   findArchitecture ''freebsd'' \<in> {''macos'', ''linux'', ''windows''}"
  using findArchitecture_total [of "''freebsd''"] by simp

section \<open>Release Selector\<close>

text \<open>
  C3. \<open>findLatestRelease\<close> reads \<open>current_release[channel]\<close> and returns the first
  record of \<open>releases\<close>, in manifest order, whose hash equals it. When the channel key is
  absent the result is absent, and when the key is present the result is absent exactly
  when no record has that hash. The function has no failing branch: its result is a
  record or absent.
\<close>

theorem findLatestRelease_first_match:
  "(case current_release m c of
      None \<Rightarrow> findLatestRelease m c = None
    | Some h \<Rightarrow>
       (case findLatestRelease m c of
          None \<Rightarrow> \<forall>r\<in>set (releases m). hash r \<noteq> h
        | Some r \<Rightarrow>
            \<exists>pre post. releases m = pre @ r # post \<and> hash r = h \<and>
              (\<forall>y\<in>set pre. hash y \<noteq> h)))"
proof (cases "current_release m c")
  case None
  then show ?thesis by (simp add: findLatestRelease_def find_None_all)
next
  case key: (Some h)
  show ?thesis
  proof (cases "findLatestRelease m c")
    case None
    with key have "\<forall>r\<in>set (releases m). hash r \<noteq> h"
      by (simp add: findLatestRelease_def find_None_all)
    with key None show ?thesis by simp
  next
    case (Some r)
    with key
    have "\<exists>pre post. releases m = pre @ r # post \<and> hash r = h \<and> (\<forall>y\<in>set pre. hash y \<noteq> h)"
      by (simp add: findLatestRelease_def find_Some_first)
    with key Some show ?thesis by simp
  qed
qed

theorem findLatestRelease_first_match_witness:
  "current_release example_manifest ''stable'' = Some ''h1'' \<and>
   findLatestRelease example_manifest ''stable'' = Some release_stable \<and>
   (\<exists>pre post. releases example_manifest = pre @ release_stable # post \<and>
      hash release_stable = ''h1'' \<and> (\<forall>y\<in>set pre. hash y \<noteq> ''h1'')) \<and>
   current_release example_manifest ''beta'' = None \<and>
   findLatestRelease example_manifest ''beta'' = None \<and>
   current_release example_manifest ''dev'' = Some ''h9'' \<and>
   findLatestRelease example_manifest ''dev'' = None"
proof -
  have sel: "current_release example_manifest ''stable'' = Some ''h1''"
    "findLatestRelease example_manifest ''stable'' = Some release_stable"
    "current_release example_manifest ''beta'' = None"
    "findLatestRelease example_manifest ''beta'' = None"
    "current_release example_manifest ''dev'' = Some ''h9''"
    "findLatestRelease example_manifest ''dev'' = None"
    by (simp_all add: findLatestRelease_def example_manifest_def example_simps)
  from findLatestRelease_first_match [where m = example_manifest and c = "''stable''"] sel
  have "\<exists>pre post. releases example_manifest = pre @ release_stable # post \<and>
      hash release_stable = ''h1'' \<and> (\<forall>y\<in>set pre. hash y \<noteq> ''h1'')"
    by simp
  with sel show ?thesis by simp
qed

text \<open>
  C4. \<open>findVersionRelease\<close> returns the first record, in manifest order, whose version
  equals the requested version and whose channel equals the requested channel, and an
  absent result exactly when no record matches both fields.
\<close>

theorem findVersionRelease_first_match:
  "(case findVersionRelease m c v of
      None \<Rightarrow> \<forall>r\<in>set (releases m). \<not> (version r = v \<and> channel r = c)
    | Some r \<Rightarrow>
        \<exists>pre post. releases m = pre @ r # post \<and> version r = v \<and> channel r = c \<and>
          (\<forall>y\<in>set pre. \<not> (version y = v \<and> channel y = c)))"
proof (cases "findVersionRelease m c v")
  case None
  then have "\<forall>r\<in>set (releases m). \<not> (version r = v \<and> channel r = c)"
    by (simp add: findVersionRelease_def find_None_all)
  with None show ?thesis by simp
next
  case (Some r)
  then have "\<exists>pre post. releases m = pre @ r # post \<and> version r = v \<and> channel r = c \<and>
      (\<forall>y\<in>set pre. \<not> (version y = v \<and> channel y = c))"
    by (simp add: findVersionRelease_def find_Some_first)
  with Some show ?thesis by simp
qed

theorem findVersionRelease_first_match_witness:
  "findVersionRelease example_manifest ''stable'' ''1.2.2'' = Some release_old \<and>
   (\<exists>pre post. releases example_manifest = pre @ release_old # post \<and>
      version release_old = ''1.2.2'' \<and> channel release_old = ''stable'' \<and>
      (\<forall>y\<in>set pre. \<not> (version y = ''1.2.2'' \<and> channel y = ''stable''))) \<and>
   findVersionRelease example_manifest ''beta'' ''9.9.9'' = None"
proof -
  have first: "findVersionRelease example_manifest ''stable'' ''1.2.2'' = Some release_old"
    by (simp add: findVersionRelease_def example_manifest_def example_simps)
  have none: "findVersionRelease example_manifest ''beta'' ''9.9.9'' = None"
    by (simp add: findVersionRelease_def example_manifest_def example_simps)
  from findVersionRelease_first_match [where m = example_manifest and c = "''stable''" and v = "''1.2.2''"] first
  have "\<exists>pre post. releases example_manifest = pre @ release_old # post \<and>
      version release_old = ''1.2.2'' \<and> channel release_old = ''stable'' \<and>
      (\<forall>y\<in>set pre. \<not> (version y = ''1.2.2'' \<and> channel y = ''stable''))"
    by simp
  with first none show ?thesis by simp
qed

section \<open>Archive Fetcher and Extractor\<close>

text \<open>
  C5. After a successful download, a URL that ends in ".zip" is extracted by
  \<open>extractZip\<close> on the downloaded file and by nothing else. Any other URL is extracted
  by \<open>tar\<close>: the temp root \<open>Agent.TempDirectory\<close> is read, an identifier is generated by
  \<open>uuidv4\<close>, the directory \<open>path.join\<close> of the two is created with \<open>mkdirP\<close>, and \<open>tar\<close>
  runs with the arguments \<open>-xJC\<close>, that directory, \<open>-f\<close>, the downloaded file. The
  directory extracted to is the one handed to \<open>cacheDir\<close>. That the identifier is random
  and unique is a property of the generator, whose value the model takes as given.
\<close>

theorem archive_dispatch:
  assumes "downloadTool env url = Inr file"
  shows "(endsWith url ''.zip'' \<longrightarrow>
            map call_of (events_of (downloadAndCacheSdk env url ver chan arch) w) =
            DownloadTool url # ExtractZip file #
              (case extractZip env file of
                 Inl e \<Rightarrow> []
               | Inr dir \<Rightarrow> [CacheDir dir FLUTTER_TOOL_NAME ver arch])) \<and>
         (\<not> endsWith url ''.zip'' \<longrightarrow>
            (\<forall>root. getVariable env ''Agent.TempDirectory'' = Some root \<longrightarrow>
               mkdirP env (path_join env root (uuidv4 env)) = Inr () \<longrightarrow>
               map call_of (events_of (downloadAndCacheSdk env url ver chan arch) w) =
               [DownloadTool url, GetVariable ''Agent.TempDirectory'', Uuidv4,
                MkdirP (path_join env root (uuidv4 env)),
                TarExec [''-xJC'', path_join env root (uuidv4 env), ''-f'', file]] @
               (case tar_exec env [''-xJC'', path_join env root (uuidv4 env), ''-f'', file] of
                  Inl e \<Rightarrow> []
                | Inr u \<Rightarrow> [CacheDir (path_join env root (uuidv4 env)) FLUTTER_TOOL_NAME ver arch])))"
proof (intro conjI impI allI)
  assume zip: "endsWith url ''.zip''"
  show "map call_of (events_of (downloadAndCacheSdk env url ver chan arch) w) =
            DownloadTool url # ExtractZip file #
              (case extractZip env file of
                 Inl e \<Rightarrow> []
               | Inr dir \<Rightarrow> [CacheDir dir FLUTTER_TOOL_NAME ver arch])"
  proof (cases "extractZip env file")
    case (Inl e)
    with assms zip show ?thesis
      by (simp add: events_of_def downloadAndCacheSdk_def andThen_invoke_Inr andThen_invoke_Inl)
  next
    case (Inr dir)
    with assms zip show ?thesis
      by (simp add: events_of_def downloadAndCacheSdk_def andThen_invoke_Inr
          call_of_call_cacheDir)
  qed
next
  fix root
  assume tar: "\<not> endsWith url ''.zip''"
    and root: "getVariable env ''Agent.TempDirectory'' = Some root"
    and mk: "mkdirP env (path_join env root (uuidv4 env)) = Inr ()"
  let ?dest = "path_join env root (uuidv4 env)"
  show "map call_of (events_of (downloadAndCacheSdk env url ver chan arch) w) =
               [DownloadTool url, GetVariable ''Agent.TempDirectory'', Uuidv4,
                MkdirP ?dest, TarExec [''-xJC'', ?dest, ''-f'', file]] @
               (case tar_exec env [''-xJC'', ?dest, ''-f'', file] of
                  Inl e \<Rightarrow> []
                | Inr u \<Rightarrow> [CacheDir ?dest FLUTTER_TOOL_NAME ver arch])"
  proof (cases "tar_exec env [''-xJC'', ?dest, ''-f'', file]")
    case (Inl e)
    with assms tar root mk show ?thesis
      by (simp add: events_of_def downloadAndCacheSdk_def extractTarXZ_def
          createExtractFolder_def Let_def andThen_assoc andThen_invoke_Inr andThen_invoke_Inl
          andThen_return)
  next
    case (Inr u)
    with assms tar root mk show ?thesis
      by (simp add: events_of_def downloadAndCacheSdk_def extractTarXZ_def
          createExtractFolder_def Let_def andThen_assoc andThen_invoke_Inr
          andThen_return call_of_call_cacheDir)
  qed
qed

theorem archive_dispatch_witness:
  "endsWith ''https://example.org/releases/a.zip'' ''.zip'' \<and>
   map call_of (events_of (downloadAndCacheSdk (example_env ''stable'' ''latest'')
      ''https://example.org/releases/a.zip'' ''1.2.3'' ''stable'' ''linux'') empty_world) =
     [DownloadTool ''https://example.org/releases/a.zip'',
      ExtractZip ''/agent/_temp/download'',
      CacheDir ''/agent/_temp/unzipped'' ''Flutter'' ''1.2.3'' ''linux''] \<and>
   \<not> endsWith ''https://example.org/releases/b.tar.xz'' ''.zip'' \<and>
   getVariable (example_env ''beta'' ''latest'') ''Agent.TempDirectory'' = Some ''/agent/_temp'' \<and>
   map call_of (events_of (downloadAndCacheSdk (example_env ''beta'' ''latest'')
      ''https://example.org/releases/b.tar.xz'' ''1.2.3'' ''beta'' ''linux'') empty_world) =
     [DownloadTool ''https://example.org/releases/b.tar.xz'',
      GetVariable ''Agent.TempDirectory'', Uuidv4,
      MkdirP ''/agent/_temp/110ec58a-a0f2-4ac4-8393-c866d813b8d1'',
      TarExec [''-xJC'', ''/agent/_temp/110ec58a-a0f2-4ac4-8393-c866d813b8d1'', ''-f'',
               ''/agent/_temp/download''],
      CacheDir ''/agent/_temp/110ec58a-a0f2-4ac4-8393-c866d813b8d1'' ''Flutter'' ''1.2.3''
        ''linux'']"
proof -
  let ?Z = "example_env ''stable'' ''latest''"
  let ?T = "example_env ''beta'' ''latest''"
  let ?dest = "''/agent/_temp/110ec58a-a0f2-4ac4-8393-c866d813b8d1''"
  have dlZ: "downloadTool ?Z ''https://example.org/releases/a.zip'' = Inr ''/agent/_temp/download''"
    by (simp add: example_env_def)
  have zip: "endsWith ''https://example.org/releases/a.zip'' ''.zip''"
    by (simp add: endsWith_def)
  have exZ: "extractZip ?Z ''/agent/_temp/download'' = Inr ''/agent/_temp/unzipped''"
    by (simp add: example_env_def)
  from archive_dispatch [OF dlZ, where ver = "''1.2.3''" and chan = "''stable''"
      and arch = "''linux''" and w = empty_world] zip exZ
  have z: "map call_of (events_of (downloadAndCacheSdk ?Z
      ''https://example.org/releases/a.zip'' ''1.2.3'' ''stable'' ''linux'') empty_world) =
     [DownloadTool ''https://example.org/releases/a.zip'',
      ExtractZip ''/agent/_temp/download'',
      CacheDir ''/agent/_temp/unzipped'' FLUTTER_TOOL_NAME ''1.2.3'' ''linux'']"
    by simp
  have dlT: "downloadTool ?T ''https://example.org/releases/b.tar.xz'' = Inr ''/agent/_temp/download''"
    by (simp add: example_env_def)
  have tar: "\<not> endsWith ''https://example.org/releases/b.tar.xz'' ''.zip''"
    by (simp add: endsWith_def)
  have root: "getVariable ?T ''Agent.TempDirectory'' = Some ''/agent/_temp''"
    by (simp add: example_env_def)
  have dest: "path_join ?T ''/agent/_temp'' (uuidv4 ?T) = ?dest"
    by (simp add: example_env_def)
  have mk: "mkdirP ?T (path_join ?T ''/agent/_temp'' (uuidv4 ?T)) = Inr ()"
    by (simp add: example_env_def)
  have ex: "tar_exec ?T [''-xJC'', path_join ?T ''/agent/_temp'' (uuidv4 ?T), ''-f'',
      ''/agent/_temp/download''] = Inr ()"
    by (simp add: example_env_def)
  from archive_dispatch [OF dlT, where ver = "''1.2.3''" and chan = "''beta''"
      and arch = "''linux''" and w = empty_world] tar root mk ex
  have "map call_of (events_of (downloadAndCacheSdk ?T
      ''https://example.org/releases/b.tar.xz'' ''1.2.3'' ''beta'' ''linux'') empty_world) =
     [DownloadTool ''https://example.org/releases/b.tar.xz'',
      GetVariable ''Agent.TempDirectory'', Uuidv4,
      MkdirP (path_join ?T ''/agent/_temp'' (uuidv4 ?T)),
      TarExec [''-xJC'', path_join ?T ''/agent/_temp'' (uuidv4 ?T), ''-f'',
               ''/agent/_temp/download''],
      CacheDir (path_join ?T ''/agent/_temp'' (uuidv4 ?T)) FLUTTER_TOOL_NAME ''1.2.3'' ''linux'']"
    by simp
  then have t: "map call_of (events_of (downloadAndCacheSdk ?T
      ''https://example.org/releases/b.tar.xz'' ''1.2.3'' ''beta'' ''linux'') empty_world) =
     [DownloadTool ''https://example.org/releases/b.tar.xz'',
      GetVariable ''Agent.TempDirectory'', Uuidv4, MkdirP ?dest,
      TarExec [''-xJC'', ?dest, ''-f'', ''/agent/_temp/download''],
      CacheDir ?dest FLUTTER_TOOL_NAME ''1.2.3'' ''linux'']"
    by (simp only: dest)
  from zip z tar root t show ?thesis by (simp add: FLUTTER_TOOL_NAME_def)
qed

text \<open>
  C10. The \<open>channel\<close> argument of \<open>downloadAndCacheSdk\<close> has no effect: the function is
  the same for any two channels. Every call into the tool cache it makes has the key
  ("Flutter", version, architecture), and when it returns normally the cache is what
  \<open>cacheDir\<close>, its last call, returned for that key. Releases of one version and
  architecture on different channels therefore share one entry.
\<close>

theorem channel_ignored:
  "downloadAndCacheSdk env url ver chan arch = downloadAndCacheSdk env url ver chan' arch \<and>
   (\<exists>evs. trace (snd (downloadAndCacheSdk env url ver chan arch w)) = trace w @ evs \<and>
      (\<forall>ev\<in>set evs. \<forall>k. cache_key (call_of ev) = Some k \<longrightarrow>
         k = (FLUTTER_TOOL_NAME, ver, arch))) \<and>
   (\<forall>w'. downloadAndCacheSdk env url ver chan arch w = (Inr (), w') \<longrightarrow>
      (\<exists>dir. cacheDir env (cache w) dir FLUTTER_TOOL_NAME ver arch = Inr (cache w') \<and>
             last (trace w') = Returned (CacheDir dir FLUTTER_TOOL_NAME ver arch)))"
proof -
  have same: "downloadAndCacheSdk env url ver chan arch = downloadAndCacheSdk env url ver chan' arch"
    by (simp add: downloadAndCacheSdk_def)
  from emits_downloadAndCacheSdk [of ver arch env url chan]
  obtain evs where evs: "trace (snd (downloadAndCacheSdk env url ver chan arch w)) = trace w @ evs"
    "list_all (keyed (FLUTTER_TOOL_NAME, ver, arch)) evs"
    unfolding emits_def by blast
  from evs(2) have "\<forall>ev\<in>set evs. \<forall>k. cache_key (call_of ev) = Some k \<longrightarrow>
      k = (FLUTTER_TOOL_NAME, ver, arch)"
    by (auto simp: list_all_iff keyed_def)
  with evs(1) have keys: "\<exists>evs. trace (snd (downloadAndCacheSdk env url ver chan arch w)) =
      trace w @ evs \<and>
      (\<forall>ev\<in>set evs. \<forall>k. cache_key (call_of ev) = Some k \<longrightarrow>
         k = (FLUTTER_TOOL_NAME, ver, arch))"
    by blast
  have stores: "\<forall>w'. downloadAndCacheSdk env url ver chan arch w = (Inr (), w') \<longrightarrow>
      (\<exists>dir. cacheDir env (cache w) dir FLUTTER_TOOL_NAME ver arch = Inr (cache w') \<and>
             last (trace w') = Returned (CacheDir dir FLUTTER_TOOL_NAME ver arch))"
    by (blast dest: downloadAndCacheSdk_stores)
  from same keys stores show ?thesis by blast
qed

theorem channel_ignored_witness:
  "downloadAndCacheSdk (example_env ''stable'' ''1.2.3'') ''https://example.org/releases/a.zip''
     ''1.2.3'' ''stable'' ''linux'' empty_world =
   downloadAndCacheSdk (example_env ''stable'' ''1.2.3'') ''https://example.org/releases/a.zip''
     ''1.2.3'' ''beta'' ''linux'' empty_world \<and>
   downloadAndCacheSdk (example_env ''stable'' ''1.2.3'') ''https://example.org/releases/a.zip''
     ''1.2.3'' ''stable'' ''linux'' empty_world =
   (Inr (),
    \<lparr>cache = [(''Flutter'', ''1.2.3'', ''linux'') \<mapsto> ''/agent/_tool/Flutter/1.2.3/linux''],
     trace = [Returned (DownloadTool ''https://example.org/releases/a.zip''),
              Returned (ExtractZip ''/agent/_temp/download''),
              Returned (CacheDir ''/agent/_temp/unzipped'' ''Flutter'' ''1.2.3'' ''linux'')]\<rparr>) \<and>
   (\<exists>dir. cacheDir (example_env ''stable'' ''1.2.3'') (cache empty_world) dir FLUTTER_TOOL_NAME
            ''1.2.3'' ''linux'' =
          Inr [(''Flutter'', ''1.2.3'', ''linux'') \<mapsto> ''/agent/_tool/Flutter/1.2.3/linux'']) \<and>
   trace (run (example_env ''beta'' ''1.2.3'')
     \<lparr>cache = [(''Flutter'', ''1.2.3'', ''linux'') \<mapsto> ''/agent/_tool/Flutter/1.2.3/linux''],
      trace = []\<rparr>) =
       [Returned (RequestGet ''https://storage.googleapis.com/flutter_infra/releases/releases_linux.json''),
        Returned (JSONParse ''{manifest}''), Returned (GetInput ''channel''),
        Returned (GetInput ''version''),
        Returned (FindLocalTool ''Flutter'' ''1.2.3'' ''linux''),
        Returned (SetVariable ''FlutterToolPath'' ''/agent/_tool/Flutter/1.2.3/linux/flutter/bin''),
        Returned (SetResult (Succeeded ''Installed''))]"
proof -
  let ?E = "example_env ''stable'' ''1.2.3''"
  let ?url = "''https://example.org/releases/a.zip''"
  let ?W = "\<lparr>cache = [(''Flutter'', ''1.2.3'', ''linux'') \<mapsto> ''/agent/_tool/Flutter/1.2.3/linux''],
     trace = [Returned (DownloadTool ''https://example.org/releases/a.zip''),
              Returned (ExtractZip ''/agent/_temp/download''),
              Returned (CacheDir ''/agent/_temp/unzipped'' ''Flutter'' ''1.2.3'' ''linux'')]\<rparr>
     :: tool_cache world"
  note ci = channel_ignored [where env = ?E and url = ?url and ver = "''1.2.3''"
      and chan = "''stable''" and chan' = "''beta''" and arch = "''linux''" and w = empty_world]
  from ci have same: "downloadAndCacheSdk ?E ?url ''1.2.3'' ''stable'' ''linux'' empty_world =
      downloadAndCacheSdk ?E ?url ''1.2.3'' ''beta'' ''linux'' empty_world"
    by simp
  have val: "downloadAndCacheSdk ?E ?url ''1.2.3'' ''stable'' ''linux'' empty_world = (Inr (), ?W)"
    by (simp add: example_download_zip empty_world_def)
  with ci have "\<exists>dir. cacheDir ?E (cache empty_world) dir FLUTTER_TOOL_NAME ''1.2.3'' ''linux'' =
      Inr (cache ?W)"
    by blast
  then have stored: "\<exists>dir. cacheDir ?E (cache empty_world) dir FLUTTER_TOOL_NAME ''1.2.3'' ''linux'' =
      Inr [(''Flutter'', ''1.2.3'', ''linux'') \<mapsto> ''/agent/_tool/Flutter/1.2.3/linux'']"
    by simp
  from same val stored example_run_beta_shares show ?thesis by simp
qed

section \<open>Installer\<close>


text \<open>
  C2, as amended. When the manifest has no record for the request (for the version
  "latest": no record whose hash is \<open>current_release[channel]\<close>; otherwise: no record
  with the requested version and channel), the run fails right after the inputs are
  read, without a cache lookup or a download, and \<open>FlutterToolPath\<close> is never set. The
  error it fails with is the \<open>TypeError\<close> raised by reading \<open>archive\<close> of the absent
  release: the script has no \<open>SelectionError\<close>.
\<close>

theorem no_match_fails:
  assumes "request_get env (releases_url (findArchitecture (os_platform env))) = Inr body"
    and "JSON_parse env body = Inr m"
    and "getInput env ''channel'' = Inr c"
    and "getInput env ''version'' = Inr v"
    and "if v = ''latest''
         then \<forall>r\<in>set (releases m). Some (hash r) \<noteq> current_release m c
         else \<forall>r\<in>set (releases m). \<not> (version r = v \<and> channel r = c)"
  shows "run env w = w\<lparr>trace := trace w @
       [Returned (RequestGet (releases_url (findArchitecture (os_platform env)))),
        Returned (JSONParse body), Returned (GetInput ''channel''),
        Returned (GetInput ''version''),
        Returned (SetResult (Failed (TypeError (PropertyOfUndefined ''archive''))))]\<rparr> \<and>
     (\<forall>ev\<in>set (run_events env w). \<forall>name val. call_of ev \<noteq> SetVariable name val)"
proof -
  from assms(5) have none: "requested_release m c v = None"
    by (auto simp: requested_release_def findLatestRelease_def findVersionRelease_def
        find_None_all split: if_splits)
  have r: "run env w = w\<lparr>trace := trace w @
       [Returned (RequestGet (releases_url (findArchitecture (os_platform env)))),
        Returned (JSONParse body), Returned (GetInput ''channel''),
        Returned (GetInput ''version''),
        Returned (SetResult (Failed (TypeError (PropertyOfUndefined ''archive''))))]\<rparr>"
    by (simp add: run_def main_resolved [OF assms(1-4)] none throw_def invoke_def)
  then show ?thesis by (simp add: run_events_def)
qed

theorem no_match_fails_witness:
  "run (example_env ''beta'' ''9.9.9'') empty_world = \<lparr>cache = Map.empty, trace =
       [Returned (RequestGet ''https://storage.googleapis.com/flutter_infra/releases/releases_linux.json''),
        Returned (JSONParse ''{manifest}''), Returned (GetInput ''channel''),
        Returned (GetInput ''version''),
        Returned (SetResult (Failed (TypeError (PropertyOfUndefined ''archive''))))]\<rparr> \<and>
   run (example_env ''dev'' ''latest'') empty_world = \<lparr>cache = Map.empty, trace =
       [Returned (RequestGet ''https://storage.googleapis.com/flutter_infra/releases/releases_linux.json''),
        Returned (JSONParse ''{manifest}''), Returned (GetInput ''channel''),
        Returned (GetInput ''version''),
        Returned (SetResult (Failed (TypeError (PropertyOfUndefined ''archive''))))]\<rparr>"
proof -
  have version: "if ''9.9.9'' = ''latest''
      then \<forall>r\<in>set (releases example_manifest). Some (hash r) \<noteq> current_release example_manifest ''beta''
      else \<forall>r\<in>set (releases example_manifest). \<not> (version r = ''9.9.9'' \<and> channel r = ''beta'')"
    by (simp add: example_manifest_def example_simps)
  have latest: "if ''latest'' = ''latest''
      then \<forall>r\<in>set (releases example_manifest). Some (hash r) \<noteq> current_release example_manifest ''dev''
      else \<forall>r\<in>set (releases example_manifest). \<not> (version r = ''latest'' \<and> channel r = ''dev'')"
    by (simp add: example_manifest_def example_simps)
  from no_match_fails [OF example_env_request example_env_parse example_env_channel
      example_env_version version, of empty_world]
    no_match_fails [OF example_env_request example_env_parse example_env_channel
      example_env_version latest, of empty_world]
  show ?thesis by (simp add: example_env_url empty_world_def)
qed

text \<open>
  The claim as stated fails on the request (channel "beta", version "9.9.9") against a
  manifest with no such record: the error the run fails with is a \<open>TypeError\<close>, not a
  \<open>SelectionError\<close>.
\<close>

theorem no_match_not_SelectionError:
  "trace (run (example_env ''beta'' ''9.9.9'') empty_world) =
     [Returned (RequestGet ''https://storage.googleapis.com/flutter_infra/releases/releases_linux.json''),
      Returned (JSONParse ''{manifest}''), Returned (GetInput ''channel''),
      Returned (GetInput ''version''),
      Returned (SetResult (Failed (TypeError (PropertyOfUndefined ''archive''))))] \<and>
   error_name (TypeError (PropertyOfUndefined ''archive'')) \<noteq> ''SelectionError''"
proof -
  have "requested_release example_manifest ''beta'' ''9.9.9'' = None"
    by (simp add: requested_release_def findVersionRelease_def example_manifest_def
        example_simps)
  then have "main (example_env ''beta'' ''9.9.9'') empty_world =
      (Inl (TypeError (PropertyOfUndefined ''archive'')), empty_world\<lparr>trace :=
         trace empty_world @
         [Returned (RequestGet ''https://storage.googleapis.com/flutter_infra/releases/releases_linux.json''),
          Returned (JSONParse ''{manifest}''), Returned (GetInput ''channel''),
          Returned (GetInput ''version'')]\<rparr>)"
    by (simp add: main_resolved [OF example_env_request example_env_parse example_env_channel
          example_env_version] throw_def example_env_url)
  then show ?thesis
    by (simp add: run_def invoke_def empty_world_def)
qed

text \<open>
  C7. When the first cache lookup, under the key ("Flutter", version of the resolved
  release, architecture), returns a non-empty path, the run is: fetch and parse the
  manifest, read the two inputs, that one lookup, publish. Nothing is downloaded,
  extracted or stored and the cache is left as it was; the published \<open>FlutterToolPath\<close>
  is \<open>path.join\<close> of the cached path and "flutter/bin".
\<close>

theorem cache_hit_skips_download:
  assumes "request_get env (releases_url (findArchitecture (os_platform env))) = Inr body"
    and "JSON_parse env body = Inr m"
    and "getInput env ''channel'' = Inr c"
    and "getInput env ''version'' = Inr v"
    and "requested_release m c v = Some rel"
    and "findLocalTool env (cache w) FLUTTER_TOOL_NAME (version rel)
           (findArchitecture (os_platform env)) = Inr (Some p)"
    and "p \<noteq> ''''"
  shows "run env w = w\<lparr>trace := trace w @
       [Returned (RequestGet (releases_url (findArchitecture (os_platform env)))),
        Returned (JSONParse body), Returned (GetInput ''channel''),
        Returned (GetInput ''version''),
        Returned (FindLocalTool FLUTTER_TOOL_NAME (version rel)
                    (findArchitecture (os_platform env))),
        Returned (SetVariable FLUTTER_TOOL_PATH_ENV_VAR
                    (path_join env p FLUTTER_EXE_RELATIVEPATH)),
        Returned (SetResult (Succeeded ''Installed''))]\<rparr> \<and>
     (\<forall>ev\<in>set (run_events env w). \<not> installs (call_of ev))"
proof -
  note r = run_cache_hit [OF assms]
  then show ?thesis by (simp add: run_events_def)
qed

theorem cache_hit_skips_download_witness:
  "run (example_env ''stable'' ''1.2.3'') cached_world = cached_world\<lparr>trace :=
       [Returned (RequestGet ''https://storage.googleapis.com/flutter_infra/releases/releases_linux.json''),
        Returned (JSONParse ''{manifest}''), Returned (GetInput ''channel''),
        Returned (GetInput ''version''),
        Returned (FindLocalTool ''Flutter'' ''1.2.3'' ''linux''),
        Returned (SetVariable ''FlutterToolPath'' ''/agent/_tool/Flutter/1.2.3/linux/flutter/bin''),
        Returned (SetResult (Succeeded ''Installed''))]\<rparr>"
proof -
  have hit: "findLocalTool (example_env ''stable'' ''1.2.3'') (cache cached_world) FLUTTER_TOOL_NAME
      (version release_stable)
      (findArchitecture (os_platform (example_env ''stable'' ''1.2.3''))) =
      Inr (Some ''/agent/_tool/Flutter/1.2.3/linux'')"
    by (simp add: example_env_def cached_world_def registry_find_def release_stable_def
        FLUTTER_TOOL_NAME_def findArchitecture_def)
  have nonempty: "''/agent/_tool/Flutter/1.2.3/linux'' \<noteq> ''''" by simp
  have join: "path_join (example_env ''stable'' ''1.2.3'') ''/agent/_tool/Flutter/1.2.3/linux''
      FLUTTER_EXE_RELATIVEPATH = ''/agent/_tool/Flutter/1.2.3/linux/flutter/bin''"
    by (simp add: example_env_def FLUTTER_EXE_RELATIVEPATH_def)
  from cache_hit_skips_download [OF example_env_request example_env_parse example_env_channel
      example_env_version example_requested_stable_123 hit nonempty]
  show ?thesis
    by (simp add: join releases_url_def release_stable_def cached_world_def FLUTTER_TOOL_NAME_def
        FLUTTER_TOOL_PATH_ENV_VAR_def example_env_arch)
qed

text \<open>
  C8. Take a run whose first lookup misses, by the test of the code (\<open>!toolPath\<close>:
  \<open>undefined\<close> or the empty string), and whose \<open>downloadAndCacheSdk\<close> returns normally,
  so that download, extraction and store all succeeded. The lookup of the tool cache
  answers with a path or with \<open>undefined\<close>, never with the empty string; this protocol
  is assumed of the second lookup. The cache then is the one \<open>cacheDir\<close> returned for the
  key of the lookup, so with a tool cache that finds what was stored under a key the
  second lookup hits, by the same test. Whenever the second lookup hits, the run
  publishes the path and succeeds. Whenever it still misses, by the same test, the run
  ends there with the result \<open>Failed\<close>, carrying the \<open>TypeError\<close> of \<open>path.join\<close>: nothing
  is downloaded, stored or looked up again.
\<close>

theorem relookup_after_store:
  assumes "request_get env (releases_url (findArchitecture (os_platform env))) = Inr body"
    and "JSON_parse env body = Inr m"
    and "getInput env ''channel'' = Inr c"
    and "getInput env ''version'' = Inr v"
    and "requested_release m c v = Some rel"
    and "findLocalTool env (cache w) FLUTTER_TOOL_NAME (version rel)
           (findArchitecture (os_platform env)) = Inr t"
    and "falsy t"
    and "downloadAndCacheSdk env (base_url m @ ''/'' @ archive rel) (version rel) c
           (findArchitecture (os_platform env))
           (w\<lparr>trace := trace w @
              [Returned (RequestGet (releases_url (findArchitecture (os_platform env)))),
               Returned (JSONParse body), Returned (GetInput ''channel''),
               Returned (GetInput ''version''),
               Returned (FindLocalTool FLUTTER_TOOL_NAME (version rel)
                           (findArchitecture (os_platform env)))]\<rparr>) = (Inr (), w')"
    and "findLocalTool env (cache w') FLUTTER_TOOL_NAME (version rel)
           (findArchitecture (os_platform env)) \<noteq> Inr (Some '''')"
  shows "(find_after_store env \<longrightarrow>
            (\<exists>p. findLocalTool env (cache w') FLUTTER_TOOL_NAME (version rel)
                   (findArchitecture (os_platform env)) = Inr (Some p) \<and>
                 \<not> falsy (Some p))) \<and>
         (\<forall>t'. findLocalTool env (cache w') FLUTTER_TOOL_NAME (version rel)
                (findArchitecture (os_platform env)) = Inr t' \<and>
               \<not> falsy t' \<longrightarrow>
              (\<exists>p. t' = Some p \<and>
                 run env w = w'\<lparr>trace := trace w' @
                   [Returned (FindLocalTool FLUTTER_TOOL_NAME (version rel)
                                (findArchitecture (os_platform env))),
                    Returned (SetVariable FLUTTER_TOOL_PATH_ENV_VAR
                                (path_join env p FLUTTER_EXE_RELATIVEPATH)),
                    Returned (SetResult (Succeeded ''Installed''))]\<rparr>)) \<and>
         (\<forall>t'. findLocalTool env (cache w') FLUTTER_TOOL_NAME (version rel)
                (findArchitecture (os_platform env)) = Inr t' \<and>
               falsy t' \<longrightarrow>
              run env w = w'\<lparr>trace := trace w' @
                [Returned (FindLocalTool FLUTTER_TOOL_NAME (version rel)
                             (findArchitecture (os_platform env))),
                 Returned (SetResult (Failed (TypeError PathNotString)))]\<rparr>)"
proof -
  let ?second = "findLocalTool env (cache w') FLUTTER_TOOL_NAME (version rel)
      (findArchitecture (os_platform env))"
  note r = run_relookup [OF assms(1-8)]
  then obtain dir where "cacheDir env (cache w) dir FLUTTER_TOOL_NAME (version rel)
      (findArchitecture (os_platform env)) = Inr (cache w')"
    by blast
  then have "find_after_store env \<longrightarrow> (\<exists>p. ?second = Inr (Some p))"
    unfolding find_after_store_def by blast
  with assms(9) have contract: "find_after_store env \<longrightarrow>
      (\<exists>p. ?second = Inr (Some p) \<and> \<not> falsy (Some p))"
    by (auto simp: falsy_def)
  from r have hit: "\<forall>t'. ?second = Inr t' \<and> \<not> falsy t' \<longrightarrow>
      (\<exists>p. t' = Some p \<and>
         run env w = w'\<lparr>trace := trace w' @
           [Returned (FindLocalTool FLUTTER_TOOL_NAME (version rel)
                        (findArchitecture (os_platform env))),
            Returned (SetVariable FLUTTER_TOOL_PATH_ENV_VAR
                        (path_join env p FLUTTER_EXE_RELATIVEPATH)),
            Returned (SetResult (Succeeded ''Installed''))]\<rparr>)"
    by (auto simp: falsy_def)
  from r assms(9) have miss: "\<forall>t'. ?second = Inr t' \<and> falsy t' \<longrightarrow>
      run env w = w'\<lparr>trace := trace w' @
        [Returned (FindLocalTool FLUTTER_TOOL_NAME (version rel)
                     (findArchitecture (os_platform env))),
         Returned (SetResult (Failed (TypeError PathNotString)))]\<rparr>"
    by (auto simp: falsy_def)
  from contract hit miss show ?thesis by blast
qed

theorem relookup_after_store_witness:
  "find_after_store (example_env ''stable'' ''latest'') \<and>
   \<not> falsy (Some ''/agent/_tool/Flutter/1.2.3/linux'') \<and>
   falsy None \<and>
   run (example_env ''stable'' ''latest'') empty_world =
     \<lparr>cache = [(''Flutter'', ''1.2.3'', ''linux'') \<mapsto> ''/agent/_tool/Flutter/1.2.3/linux''],
      trace =
       [Returned (RequestGet ''https://storage.googleapis.com/flutter_infra/releases/releases_linux.json''),
        Returned (JSONParse ''{manifest}''), Returned (GetInput ''channel''),
        Returned (GetInput ''version''),
        Returned (FindLocalTool ''Flutter'' ''1.2.3'' ''linux''),
        Returned (DownloadTool ''https://example.org/releases/a.zip''),
        Returned (ExtractZip ''/agent/_temp/download''),
        Returned (CacheDir ''/agent/_temp/unzipped'' ''Flutter'' ''1.2.3'' ''linux''),
        Returned (FindLocalTool ''Flutter'' ''1.2.3'' ''linux''),
        Returned (SetVariable ''FlutterToolPath'' ''/agent/_tool/Flutter/1.2.3/linux/flutter/bin''),
        Returned (SetResult (Succeeded ''Installed''))]\<rparr> \<and>
   run (forgetful_env ''stable'' ''latest'') empty_world =
     \<lparr>cache = Map.empty,
      trace =
       [Returned (RequestGet ''https://storage.googleapis.com/flutter_infra/releases/releases_linux.json''),
        Returned (JSONParse ''{manifest}''), Returned (GetInput ''channel''),
        Returned (GetInput ''version''),
        Returned (FindLocalTool ''Flutter'' ''1.2.3'' ''linux''),
        Returned (DownloadTool ''https://example.org/releases/a.zip''),
        Returned (ExtractZip ''/agent/_temp/download''),
        Returned (CacheDir ''/agent/_temp/unzipped'' ''Flutter'' ''1.2.3'' ''linux''),
        Returned (FindLocalTool ''Flutter'' ''1.2.3'' ''linux''),
        Returned (SetResult (Failed (TypeError PathNotString)))]\<rparr>"
proof -
  let ?E = "example_env ''stable'' ''latest''"
  let ?F = "forgetful_env ''stable'' ''latest''"
  let ?pre = "[Returned (RequestGet ''https://storage.googleapis.com/flutter_infra/releases/releases_linux.json''),
        Returned (JSONParse ''{manifest}''), Returned (GetInput ''channel''),
        Returned (GetInput ''version''),
        Returned (FindLocalTool ''Flutter'' ''1.2.3'' ''linux''),
        Returned (DownloadTool ''https://example.org/releases/a.zip''),
        Returned (ExtractZip ''/agent/_temp/download''),
        Returned (CacheDir ''/agent/_temp/unzipped'' ''Flutter'' ''1.2.3'' ''linux'')]"
  let ?W = "\<lparr>cache = [(''Flutter'', ''1.2.3'', ''linux'') \<mapsto> ''/agent/_tool/Flutter/1.2.3/linux''],
             trace = ?pre\<rparr> :: tool_cache world"
  let ?V = "\<lparr>cache = Map.empty, trace = ?pre\<rparr> :: tool_cache world"
  have hit: "\<not> falsy (Some ''/agent/_tool/Flutter/1.2.3/linux'')"
    by (simp add: falsy_def)
  have second_E: "findLocalTool ?E (cache ?W) FLUTTER_TOOL_NAME (version release_stable)
      (findArchitecture (os_platform ?E)) \<noteq> Inr (Some '''')"
    using example_second_hit by simp
  have second_F: "findLocalTool ?F (cache ?V) FLUTTER_TOOL_NAME (version release_stable)
      (findArchitecture (os_platform ?F)) \<noteq> Inr (Some '''')"
    using forgetful_miss [of "cache ?V"] by simp
  from relookup_after_store [OF example_env_request example_env_parse example_env_channel
      example_env_version example_requested_stable_latest example_first_miss falsy_None
      example_download second_E] example_second_hit hit
  have runE: "run ?E empty_world = ?W\<lparr>trace := trace ?W @
      [Returned (FindLocalTool FLUTTER_TOOL_NAME (version release_stable)
                   (findArchitecture (os_platform ?E))),
       Returned (SetVariable FLUTTER_TOOL_PATH_ENV_VAR
                   (path_join ?E ''/agent/_tool/Flutter/1.2.3/linux'' FLUTTER_EXE_RELATIVEPATH)),
       Returned (SetResult (Succeeded ''Installed''))]\<rparr>"
    by simp
  from relookup_after_store [OF forgetful_env_request forgetful_env_parse forgetful_env_channel
      forgetful_env_version example_requested_stable_latest forgetful_miss falsy_None
      forgetful_download second_F] forgetful_miss falsy_None
  have runF: "run ?F empty_world = ?V\<lparr>trace := trace ?V @
      [Returned (FindLocalTool FLUTTER_TOOL_NAME (version release_stable)
                   (findArchitecture (os_platform ?F))),
       Returned (SetResult (Failed (TypeError PathNotString)))]\<rparr>"
    by simp
  from runE runF hit falsy_None example_env_find_after_store [of "''stable''" "''latest''"]
  show ?thesis
    by (simp add: example_join FLUTTER_TOOL_NAME_def FLUTTER_TOOL_PATH_ENV_VAR_def
        release_stable_def example_env_arch forgetful_env_arch)
qed

text \<open>
  Why the protocol is assumed: were the second lookup to answer with the empty string,
  which the test of the code counts as a miss, \<open>path.join\<close> would accept it and the run
  would publish and succeed.
\<close>

lemma run_relookup_empty_path:
  assumes "request_get env (releases_url (findArchitecture (os_platform env))) = Inr body"
    and "JSON_parse env body = Inr m"
    and "getInput env ''channel'' = Inr c"
    and "getInput env ''version'' = Inr v"
    and "requested_release m c v = Some rel"
    and "findLocalTool env (cache w) FLUTTER_TOOL_NAME (version rel)
           (findArchitecture (os_platform env)) = Inr t"
    and "falsy t"
    and "downloadAndCacheSdk env (base_url m @ ''/'' @ archive rel) (version rel) c
           (findArchitecture (os_platform env))
           (w\<lparr>trace := trace w @
              [Returned (RequestGet (releases_url (findArchitecture (os_platform env)))),
               Returned (JSONParse body), Returned (GetInput ''channel''),
               Returned (GetInput ''version''),
               Returned (FindLocalTool FLUTTER_TOOL_NAME (version rel)
                           (findArchitecture (os_platform env)))]\<rparr>) = (Inr (), w')"
    and "findLocalTool env (cache w') FLUTTER_TOOL_NAME (version rel)
           (findArchitecture (os_platform env)) = Inr (Some '''')"
  shows "run env w = w'\<lparr>trace := trace w' @
           [Returned (FindLocalTool FLUTTER_TOOL_NAME (version rel)
                        (findArchitecture (os_platform env))),
            Returned (SetVariable FLUTTER_TOOL_PATH_ENV_VAR
                        (path_join env '''' FLUTTER_EXE_RELATIVEPATH)),
            Returned (SetResult (Succeeded ''Installed''))]\<rparr>"
  using run_relookup [OF assms(1-8)] assms(9) by blast

text \<open>
  C9. Every call into the tool cache during a run, lookup or store, has the key
  ("Flutter", version of the resolved release, architecture), where the resolved release
  is the record selected from the parsed manifest for the two inputs. The \<open>version\<close>
  input itself is no part of the key: a request for "latest" is looked up and stored
  under the version of the record it resolves to.
\<close>

theorem cache_keys_use_resolved_version:
  "\<exists>evs. trace (run env w) = trace w @ evs \<and>
     (\<forall>ev\<in>set evs. \<forall>k. cache_key (call_of ev) = Some k \<longrightarrow>
        (\<exists>body m c v rel.
           request_get env (releases_url (findArchitecture (os_platform env))) = Inr body \<and>
           JSON_parse env body = Inr m \<and>
           getInput env ''channel'' = Inr c \<and>
           getInput env ''version'' = Inr v \<and>
           requested_release m c v = Some rel \<and>
           k = (FLUTTER_TOOL_NAME, version rel, findArchitecture (os_platform env))))"
proof (cases "request_get env (releases_url (findArchitecture (os_platform env)))")
  case (Inl e)
  from run_request_fails [OF Inl, of w] show ?thesis by simp
next
  case body: (Inr body)
  show ?thesis
  proof (cases "JSON_parse env body")
    case (Inl e)
    from run_parse_fails [OF body Inl, of w] show ?thesis by simp
  next
    case m: (Inr m)
    show ?thesis
    proof (cases "getInput env ''channel''")
      case (Inl e)
      from run_channel_fails [OF body m Inl, of w] show ?thesis by simp
    next
      case c: (Inr c)
      show ?thesis
      proof (cases "getInput env ''version''")
        case (Inl e)
        from run_version_fails [OF body m c Inl, of w] show ?thesis by simp
      next
        case v: (Inr v)
        show ?thesis
        proof (cases "requested_release m c v")
          case None
          from run_unresolved [OF body m c v None, of w] show ?thesis by simp
        next
          case (Some rel)
          from run_resolved_keys [OF body m c v Some, of w] obtain evs where
            evs: "trace (run env w) = trace w @ evs"
              "list_all (keyed (FLUTTER_TOOL_NAME, version rel,
                 findArchitecture (os_platform env))) evs"
            by blast
          have "\<forall>ev\<in>set evs. \<forall>k. cache_key (call_of ev) = Some k \<longrightarrow>
              k = (FLUTTER_TOOL_NAME, version rel, findArchitecture (os_platform env))"
            using evs(2) by (auto simp: list_all_iff keyed_def)
          with body m c v Some evs(1) show ?thesis by auto
        qed
      qed
    qed
  qed
qed

theorem cache_keys_use_resolved_version_witness:
  "getInput (example_env ''stable'' ''latest'') ''version'' = Inr ''latest'' \<and>
   cache_key (call_of (Returned (CacheDir ''/agent/_temp/unzipped'' ''Flutter'' ''1.2.3'' ''linux''))) =
     Some (''Flutter'', ''1.2.3'', ''linux'') \<and>
   Returned (CacheDir ''/agent/_temp/unzipped'' ''Flutter'' ''1.2.3'' ''linux'') \<in>
     set (run_events (example_env ''stable'' ''latest'') empty_world) \<and>
   (\<exists>body m c v rel.
      request_get (example_env ''stable'' ''latest'')
        (releases_url (findArchitecture (os_platform (example_env ''stable'' ''latest'')))) = Inr body \<and>
      JSON_parse (example_env ''stable'' ''latest'') body = Inr m \<and>
      getInput (example_env ''stable'' ''latest'') ''channel'' = Inr c \<and>
      getInput (example_env ''stable'' ''latest'') ''version'' = Inr v \<and>
      requested_release m c v = Some rel \<and>
      (''Flutter'', ''1.2.3'', ''linux'') =
        (FLUTTER_TOOL_NAME, version rel,
         findArchitecture (os_platform (example_env ''stable'' ''latest''))))"
proof -
  let ?E = "example_env ''stable'' ''latest''"
  let ?ev = "Returned (CacheDir ''/agent/_temp/unzipped'' ''Flutter'' ''1.2.3'' ''linux'')"
  have mem: "?ev \<in> set (run_events ?E empty_world)"
    by (simp add: run_events_def example_run_latest) (simp add: empty_world_def)
  have key: "cache_key (call_of ?ev) = Some (''Flutter'', ''1.2.3'', ''linux'')" by simp
  from cache_keys_use_resolved_version [of ?E empty_world] obtain evs where
    evs: "trace (run ?E empty_world) = trace empty_world @ evs"
    and keys: "\<forall>ev\<in>set evs. \<forall>k. cache_key (call_of ev) = Some k \<longrightarrow>
        (\<exists>body m c v rel.
           request_get ?E (releases_url (findArchitecture (os_platform ?E))) = Inr body \<and>
           JSON_parse ?E body = Inr m \<and>
           getInput ?E ''channel'' = Inr c \<and>
           getInput ?E ''version'' = Inr v \<and>
           requested_release m c v = Some rel \<and>
           k = (FLUTTER_TOOL_NAME, version rel, findArchitecture (os_platform ?E)))"
    by blast
  from evs have "run_events ?E empty_world = evs" by (rule trace_run_events)
  with mem have "?ev \<in> set evs" by simp
  with keys key have "\<exists>body m c v rel.
           request_get ?E (releases_url (findArchitecture (os_platform ?E))) = Inr body \<and>
           JSON_parse ?E body = Inr m \<and>
           getInput ?E ''channel'' = Inr c \<and>
           getInput ?E ''version'' = Inr v \<and>
           requested_release m c v = Some rel \<and>
           (''Flutter'', ''1.2.3'', ''linux'') =
             (FLUTTER_TOOL_NAME, version rel, findArchitecture (os_platform ?E))"
    by blast
  with mem key example_env_version [of "''stable''" "''latest''"] show ?thesis by blast
qed

end
